theory Spec2Isabelle
  imports Complex_Main "HOL-Library.Code_Target_Numeral"
begin

section \<open>Data model (types)\<close>

text \<open>
  The card scanner's grading pipeline and collection store, as functions on values.
  A number of the data model (a grade, a probability, a price) is written as a
  rational. Where the code only compares a number with constants or passes it through,
  the rational stands for it. Where the code computes (the total value of a
  collection), numbers are IEEE doubles with their rounding, their infinities and
  \<open>NaN\<close>. Quantities are counts and are modelled by integers. An optional field
  (\<open>f?: T\<close>, or a field the code reads with \<open>?.\<close> or \<open>||\<close>) is an \<open>option\<close>.
  Text is a list of bytes, in UTF-8.
\<close>

text \<open>
  \<open>Card.price\<close> is declared a number, but \<open>CollectionViewModel.getTotalValue\<close>
  reads it as \<open>string | number\<close> (legacy data), so both shapes are kept.
\<close>

datatype price_val = PNum rat | PStr string

record ApiData =
  ximilarId :: "string option"
  confidence_a :: "rat option"
  grade_a :: "rat option"
  gradingService :: "string option"

record Card =
  id' :: string
  name :: string
  set' :: string
  rarity :: string
  condition :: string
  price :: price_val
  imageUrl :: string
  description :: string
  artist :: string
  year :: int
  type' :: string
  types :: "string list option"
  hp :: "string option"
  apiData :: "ApiData option"

record CollectionCard = Card +
  quantity :: int
  dateAdded :: string

text \<open>The object spread \<open>{...card, quantity: q, dateAdded: d}\<close>.\<close>

definition spread_card :: "Card \<Rightarrow> int \<Rightarrow> string \<Rightarrow> CollectionCard" where
  "spread_card c q d = Card.extend c \<lparr>quantity = q, dateAdded = d\<rparr>"

section \<open>Collection state (CollectionModel, collectionSlice)\<close>

record CollectionState =
  cards :: "CollectionCard list"
  isLoading :: bool
  error :: "string option"

text \<open>
  \<open>existingCard.quantity += n\<close> on the element that \<open>Array.find\<close> returned: the
  first element satisfying the predicate is updated in place, the rest of the array is
  untouched.
\<close>

fun update_first :: "('a \<Rightarrow> bool) \<Rightarrow> ('a \<Rightarrow> 'a) \<Rightarrow> 'a list \<Rightarrow> 'a list" where
  "update_first p f [] = []"
| "update_first p f (x # xs) = (if p x then f x # xs else x # update_first p f xs)"


definition CollectionModel_removeCard :: "string \<Rightarrow> CollectionCard list \<Rightarrow> CollectionCard list" where
  "CollectionModel_removeCard cardId cs = filter (\<lambda>c. id' c \<noteq> cardId) cs"


text \<open>The reducers of \<open>collectionSlice\<close>; the payload of \<open>addCard\<close> is a \<open>CollectionCard\<close>.\<close>

definition addCard :: "CollectionCard \<Rightarrow> CollectionState \<Rightarrow> CollectionState" where
  "addCard payload state =
     (case List.find (\<lambda>c. id' c = id' payload) (cards state) of
        Some existingCard \<Rightarrow>
          state\<lparr>cards := update_first (\<lambda>c. id' c = id' payload)
                              (\<lambda>c. c\<lparr>quantity := quantity c + quantity payload\<rparr>) (cards state)\<rparr>
      | None \<Rightarrow> state\<lparr>cards := cards state @ [payload]\<rparr>)"

definition removeCard :: "string \<Rightarrow> CollectionState \<Rightarrow> CollectionState" where
  "removeCard cardId state = state\<lparr>cards := filter (\<lambda>c. id' c \<noteq> cardId) (cards state)\<rparr>"






section \<open>Sample data\<close>

definition sample_card :: "string \<Rightarrow> Card" where
  "sample_card i = \<lparr>id' = i, name = ''Pikachu'', set' = ''Base Set'', rarity = ''Common'',
     condition = ''Near Mint'', price = PNum 5, imageUrl = ''u'', description = ''d'',
     artist = ''a'', year = 1996, type' = ''t'', types = None, hp = None, apiData = None\<rparr>"

definition sample_state :: CollectionState where
  "sample_state = \<lparr>cards = [spread_card (sample_card ''a'') 2 ''t0'',
                              spread_card (sample_card ''b'') 1 ''t1''],
                    isLoading = False, error = None\<rparr>"



section \<open>JavaScript values the services handle\<close>

text \<open>
  A thrown value: an \<open>Error\<close> with its message, an axios error with the status of its
  response (if there is a response), its code and its message, or a value that is not
  an \<open>Error\<close>. An \<open>async\<close> function that rejects returns \<open>Inl\<close>, one that resolves
  returns \<open>Inr\<close>.
\<close>

datatype js_error = Error string | AxiosError "nat option" "string option" string | NonError

text \<open>\<open>x || d\<close> on an optional number and on an optional string; \<open>xs?.[0]\<close>.\<close>

definition or_num :: "rat option \<Rightarrow> rat \<Rightarrow> rat" where
  "or_num x d = (case x of None \<Rightarrow> d | Some v \<Rightarrow> if v = 0 then d else v)"

definition or_str :: "string option \<Rightarrow> string \<Rightarrow> string" where
  "or_str x d = (case x of None \<Rightarrow> d | Some v \<Rightarrow> if v = [] then d else v)"

definition or_opt :: "string option \<Rightarrow> string option \<Rightarrow> string option" where
  "or_opt x y = (case x of None \<Rightarrow> y | Some v \<Rightarrow> if v = [] then y else Some v)"

definition first :: "'a list option \<Rightarrow> 'a option" where
  "first xs = (case xs of None \<Rightarrow> None | Some [] \<Rightarrow> None | Some (x # _) \<Rightarrow> Some x)"

text \<open>
  Decimal digits of a natural number, as a template literal prints an integer;
  \<open>digit_char\<close> is applied to numbers below 10 only.
\<close>

definition digit_char :: "nat \<Rightarrow> char" where
  "digit_char d = ''0123456789'' ! d"

function show_nat :: "nat \<Rightarrow> string" where
  "show_nat n = (if n < 10 then [digit_char n] else show_nat (n div 10) @ [digit_char (n mod 10)])"
  by pat_completeness auto
termination
  by (relation "measure (\<lambda>n. n)") auto

declare show_nat.simps [simp del]

text \<open>
  Text is UTF-8. The white space and line terminators of the language, each as its byte
  sequence: tab, line feed, vertical tab, form feed, carriage return, space, U+00A0,
  U+1680, U+2000 to U+200A, U+2028, U+2029, U+202F, U+205F, U+3000 and U+FEFF.
\<close>

definition ws_seqs :: "string list" where
  "ws_seqs =
    [[CHR 0x09], [CHR 0x0A], [CHR 0x0B], [CHR 0x0C], [CHR 0x0D], [CHR 0x20],
     [CHR 0xC2, CHR 0xA0],
     [CHR 0xE1, CHR 0x9A, CHR 0x80],
     [CHR 0xE2, CHR 0x80, CHR 0x80], [CHR 0xE2, CHR 0x80, CHR 0x81],
     [CHR 0xE2, CHR 0x80, CHR 0x82], [CHR 0xE2, CHR 0x80, CHR 0x83],
     [CHR 0xE2, CHR 0x80, CHR 0x84], [CHR 0xE2, CHR 0x80, CHR 0x85],
     [CHR 0xE2, CHR 0x80, CHR 0x86], [CHR 0xE2, CHR 0x80, CHR 0x87],
     [CHR 0xE2, CHR 0x80, CHR 0x88], [CHR 0xE2, CHR 0x80, CHR 0x89],
     [CHR 0xE2, CHR 0x80, CHR 0x8A],
     [CHR 0xE2, CHR 0x80, CHR 0xA8], [CHR 0xE2, CHR 0x80, CHR 0xA9],
     [CHR 0xE2, CHR 0x80, CHR 0xAF],
     [CHR 0xE2, CHR 0x81, CHR 0x9F],
     [CHR 0xE3, CHR 0x80, CHR 0x80],
     [CHR 0xEF, CHR 0xBB, CHR 0xBF]]"

text \<open>Removing from the front of a text every leading occurrence of one of the sequences.\<close>

function skip_seqs :: "string list \<Rightarrow> string \<Rightarrow> string" where
  "skip_seqs ws s =
    (case List.find (\<lambda>w. w \<noteq> [] \<and> take (length w) s = w) ws of
       None \<Rightarrow> s
     | Some w \<Rightarrow> skip_seqs ws (drop (length w) s))"
  by pat_completeness auto
termination
proof (relation "measure (\<lambda>(ws, s). length s)")
  show "wf (measure (\<lambda>(ws, s). length s))" by simp
next
  fix ws :: "string list" and s w :: string
  assume "List.find (\<lambda>w. w \<noteq> [] \<and> take (length w) s = w) ws = Some w"
  then have "w \<noteq> [] \<and> take (length w) s = w"
    by (auto simp: find_Some_iff)
  then have "s \<noteq> []" and "0 < length w" by auto
  then show "((ws, drop (length w) s), (ws, s)) \<in> measure (\<lambda>(ws, s). length s)"
    by simp
qed

declare skip_seqs.simps [simp del]

text \<open>\<open>String.prototype.trim\<close>: white space is removed from both ends.\<close>

definition trim :: "string \<Rightarrow> string" where
  "trim s = rev (skip_seqs (map rev ws_seqs) (rev (skip_seqs ws_seqs s)))"

section \<open>The grading response (types)\<close>

record XimilarTag =
  prob_t :: rat
  name_t :: string
  id_t :: string

record XimilarTags =
  Category :: "XimilarTag list option"
  Damaged :: "XimilarTag list option"
  Autograph :: "XimilarTag list option"
  Side :: "XimilarTag list option"
  Subcategory :: "XimilarTag list option"

record XimilarCardMatch =
  year_m :: "rat option"
  full_name :: "string option"
  name_m :: "string option"
  set_m :: "string option"
  rarity_m :: "string option"
  card_number :: "string option"

record XimilarIdentification =
  best_match :: "XimilarCardMatch option"

record XimilarObject =
  name_o :: string
  prob_o :: rat
  identification :: "XimilarIdentification option"

record XimilarCardAnalysis =
  tags :: "XimilarTags option"

record XimilarGrades =
  corners :: "rat option"
  edges :: "rat option"
  surface :: "rat option"
  centering :: "rat option"
  final :: "rat option"

record XimilarRecord =
  objects :: "XimilarObject list option"
  card' :: "XimilarCardAnalysis list option"
  grades :: "XimilarGrades option"
  full_url_card :: "string option"
  exact_url_card :: "string option"

record XimilarApiResponse =
  records :: "XimilarRecord list option"

record XimilarGradingResult =
  finalGrade :: rat
  cornerGrade :: rat
  edgeGrade :: rat
  surfaceGrade :: rat
  centeringGrade :: rat
  confidence :: rat
  category :: string
  subcategory :: "string option"
  isDamaged :: bool
  hasAutograph :: bool
  isfront :: bool
  imageUrl_g :: "string option"
  cardName :: "string option"
  setName :: "string option"
  rarity_g :: "string option"
  cardNumber :: "string option"
  year_g :: "rat option"

section \<open>XimilarApiService\<close>

definition no_tags :: XimilarTags where
  "no_tags = \<lparr>Category = None, Damaged = None, Autograph = None, Side = None, Subcategory = None\<rparr>"

text \<open>\<open>tagList?.[0]?.name\<close>.\<close>

definition first_name :: "XimilarTag list option \<Rightarrow> string option" where
  "first_name ts = map_option name_t (first ts)"

definition processGradingResponse :: "XimilarRecord \<Rightarrow> js_error + XimilarGradingResult" where
  "processGradingResponse recd =
    (let cardData = first (card' recd);
         tgs = (case cardData of None \<Rightarrow> no_tags
                | Some cd \<Rightarrow> (case tags cd of None \<Rightarrow> no_tags | Some t \<Rightarrow> t));
         cardObject = (case objects recd of None \<Rightarrow> None
                       | Some os \<Rightarrow> List.find (\<lambda>obj. name_o obj = ''Card'') os);
         ident = (case cardObject of None \<Rightarrow> None | Some ob \<Rightarrow> identification ob)
     in case grades recd of
          None \<Rightarrow> Inl (Error ''No grading data found in the response'')
        | Some g \<Rightarrow>
           (let bm = (case ident of None \<Rightarrow> None | Some idn \<Rightarrow> best_match idn)
            in Inr \<lparr>finalGrade = or_num (final g) 0,
                    cornerGrade = or_num (corners g) 0,
                    edgeGrade = or_num (edges g) 0,
                    surfaceGrade = or_num (surface g) 0,
                    centeringGrade = or_num (centering g) 0,
                    confidence = or_num (map_option prob_o cardObject) 0,
                    category = or_str (first_name (Category tgs)) ''Trading Card'',
                    subcategory = first_name (Subcategory tgs),
                    isDamaged = (first_name (Damaged tgs) \<noteq> Some ''OK''),
                    hasAutograph = (first_name (Autograph tgs) = Some ''Yes''),
                    isfront = (first_name (Side tgs) = Some ''Front''),
                    imageUrl_g = or_opt (full_url_card recd) (exact_url_card recd),
                    cardName = (case bm of None \<Rightarrow> None | Some m \<Rightarrow> or_opt (name_m m) (full_name m)),
                    setName = (case bm of None \<Rightarrow> None | Some m \<Rightarrow> set_m m),
                    rarity_g = (case bm of None \<Rightarrow> None | Some m \<Rightarrow> rarity_m m),
                    cardNumber = (case bm of None \<Rightarrow> None | Some m \<Rightarrow> card_number m),
                    year_g = (case bm of None \<Rightarrow> None | Some m \<Rightarrow> year_m m)\<rparr>))"

text \<open>\<open>interpretGrade\<close>: the grade is clamped to 0..10 and read off the finer table.\<close>

definition interpretGrade :: "rat option \<Rightarrow> string" where
  "interpretGrade grade =
    (case grade of None \<Rightarrow> ''Not Graded''
     | Some g \<Rightarrow>
        (let normalizedGrade = max 0 (min 10 g) in
         if normalizedGrade \<ge> 10 then ''Gem Mint''
         else if normalizedGrade \<ge> 19/2 then ''Gem Mint''
         else if normalizedGrade \<ge> 9 then ''Mint''
         else if normalizedGrade \<ge> 17/2 then ''Near Mint+''
         else if normalizedGrade \<ge> 8 then ''Near Mint/Mint''
         else if normalizedGrade \<ge> 15/2 then ''Near Mint''
         else if normalizedGrade \<ge> 7 then ''Excellent''
         else if normalizedGrade \<ge> 13/2 then ''Very Good+''
         else if normalizedGrade \<ge> 6 then ''Very Good''
         else if normalizedGrade \<ge> 11/2 then ''Good+''
         else if normalizedGrade \<ge> 5 then ''Good''
         else if normalizedGrade \<ge> 4 then ''Fair''
         else if normalizedGrade \<ge> 3 then ''Poor''
         else if normalizedGrade \<ge> 2 then ''Damaged''
         else if normalizedGrade \<ge> 1 then ''Authentic (Damaged)''
         else ''Damaged''))"

text \<open>
  The handler of \<open>gradeCard\<close>'s \<open>catch\<close>: every branch throws a new \<open>Error\<close>.
\<close>

definition gradeCard_catch :: "js_error \<Rightarrow> js_error" where
  "gradeCard_catch err =
    (case err of
       AxiosError status code msg \<Rightarrow>
         if status = Some 401 then Error ''Authentication failed. Please check your API token.''
         else if status = Some 429 then Error ''Rate limit exceeded. Please try again later.''
         else if code = Some ''ECONNABORTED'' then Error ''Request timed out. Please check your internet connection.''
         else if status = Some 400 then Error ''Invalid request. Please check the image format.''
         else if (case status of None \<Rightarrow> False | Some s \<Rightarrow> s \<ge> 500) then Error ''Ximilar API server error. Please try again later.''
         else if status = None then Error ''Network error. Please check your internet connection.''
         else Error (''Card grading failed: '' @ msg)
     | Error msg \<Rightarrow> Error (''Card grading failed: '' @ msg)
     | NonError \<Rightarrow> Error ''Card grading failed: Unknown error'')"

text \<open>
  \<open>gradeCard\<close>. Steps 2 to 5 (conversion and upload of a local image, the check of the
  URL scheme, the HTTP request) wait for collaborators outside this model; \<open>request\<close>
  gives their outcome for an image URL: the thrown value, or \<open>response.data\<close>.
\<close>

definition gradeCard_try ::
  "(string \<Rightarrow> js_error + XimilarApiResponse option) \<Rightarrow> string \<Rightarrow> js_error + XimilarGradingResult" where
  "gradeCard_try request url =
    (if url = [] \<or> trim url = [] then Inl (Error ''Image URL is required for grading'')
     else case request url of
        Inl err \<Rightarrow> Inl err
      | Inr data \<Rightarrow>
         (case data of
            None \<Rightarrow> Inl (Error ''Invalid response from Ximilar API: No records found'')
          | Some d \<Rightarrow>
             (case records d of
                None \<Rightarrow> Inl (Error ''Invalid response from Ximilar API: No records found'')
              | Some [] \<Rightarrow> Inl (Error ''Invalid response from Ximilar API: No records found'')
              | Some (recd # _) \<Rightarrow> processGradingResponse recd)))"

definition gradeCard ::
  "(string \<Rightarrow> js_error + XimilarApiResponse option) \<Rightarrow> string \<Rightarrow> js_error + XimilarGradingResult" where
  "gradeCard request url =
    (case gradeCard_try request url of
       Inl err \<Rightarrow> Inl (gradeCard_catch err)
     | Inr gradingResult \<Rightarrow> Inr gradingResult)"

section \<open>Sample grading responses\<close>

text \<open>
  The value of a tag category in a response: the name of the first tag of that category
  in the first card analysis, if there is one. The detected card: the first detected
  object named \<open>Card\<close>.
\<close>

definition tag_value :: "(XimilarTags \<Rightarrow> XimilarTag list option) \<Rightarrow> XimilarRecord \<Rightarrow> string option" where
  "tag_value cat r =
    (case card' r of
       Some (cd # _) \<Rightarrow>
         (case tags cd of
            Some t \<Rightarrow> (case cat t of Some (tg # _) \<Rightarrow> Some (name_t tg) | _ \<Rightarrow> None)
          | None \<Rightarrow> None)
     | _ \<Rightarrow> None)"

definition card_object :: "XimilarRecord \<Rightarrow> XimilarObject option" where
  "card_object r = (case objects r of None \<Rightarrow> None | Some os \<Rightarrow> List.find (\<lambda>ob. name_o ob = ''Card'') os)"

text \<open>The primary detected object, read as the first object of the response.\<close>

definition primary_object :: "XimilarRecord \<Rightarrow> XimilarObject option" where
  "primary_object r = first (objects r)"

definition no_grades :: XimilarGrades where
  "no_grades = \<lparr>corners = None, edges = None, surface = None, centering = None, final = None\<rparr>"

definition bare_record :: XimilarRecord where
  "bare_record = \<lparr>objects = None, card' = None, grades = Some no_grades,
                   full_url_card = None, exact_url_card = None\<rparr>"

definition scenario_record :: XimilarRecord where
  "scenario_record =
     \<lparr>objects = Some [\<lparr>name_o = ''Card'', prob_o = 19/20, identification = None\<rparr>],
      card' = Some [\<lparr>tags = Some (no_tags\<lparr>
                 Autograph := Some [\<lparr>prob_t = 9/10, name_t = ''No'', id_t = ''aut1''\<rparr>],
                 Side := Some [\<lparr>prob_t = 8/10, name_t = ''Back'', id_t = ''side1''\<rparr>]\<rparr>)\<rparr>],
      grades = Some (no_grades\<lparr>final := Some (17/2)\<rparr>),
      full_url_card = None, exact_url_card = None\<rparr>"

definition sleeve_only_record :: XimilarRecord where
  "sleeve_only_record =
     \<lparr>objects = Some [\<lparr>name_o = ''Sleeve'', prob_o = 1/2, identification = None\<rparr>],
      card' = None, grades = Some no_grades, full_url_card = None, exact_url_card = None\<rparr>"

definition out_of_range_record :: XimilarRecord where
  "out_of_range_record =
     \<lparr>objects = Some [\<lparr>name_o = ''Sleeve'', prob_o = 1/2, identification = None\<rparr>,
                      \<lparr>name_o = ''Card'', prob_o = 3/4, identification = None\<rparr>],
      card' = None,
      grades = Some \<lparr>corners = Some (-3), edges = None, surface = Some 0, centering = Some 10,
                     final = Some 42\<rparr>,
      full_url_card = None, exact_url_card = None\<rparr>"

section \<open>CardModel\<close>

text \<open>
  \<open>createMockCard\<close>; \<open>now\<close> is \<open>Date.now()\<close>. The letter e with an acute accent is
  written as its two UTF-8 bytes.
\<close>

definition createMockCard :: "nat \<Rightarrow> Card" where
  "createMockCard now =
     \<lparr>id' = ''mock_'' @ show_nat now,
      name = ''Pikachu'',
      set' = ''Base Set'',
      rarity = ''Common'',
      condition = ''Near Mint'',
      price = PNum 5,
      imageUrl = ''https://images.pokemontcg.io/base1/25.png'',
      description = ''A mouse Pok'' @ [CHR 0xC3, CHR 0xA9] @ ''mon with electricity-storing cheek pouches.'',
      artist = ''Atsuko Nishida'',
      year = 1996,
      type' = ''Pok'' @ [CHR 0xC3, CHR 0xA9] @ ''mon'',
      types = Some [''Electric''],
      hp = Some ''60'',
      apiData = None\<rparr>"

definition mapGradeToCondition :: "rat option \<Rightarrow> string" where
  "mapGradeToCondition grade =
    (case grade of None \<Rightarrow> ''Unknown''
     | Some g \<Rightarrow>
        if g = 0 then ''Unknown''
        else if g \<ge> 10 then ''Gem Mint''
        else if g \<ge> 9 then ''Mint''
        else if g \<ge> 8 then ''Near Mint/Mint''
        else if g \<ge> 7 then ''Near Mint''
        else if g \<ge> 6 then ''Excellent''
        else if g \<ge> 5 then ''Very Good''
        else if g \<ge> 4 then ''Good''
        else if g \<ge> 3 then ''Fair''
        else if g \<ge> 2 then ''Poor''
        else ''Damaged'')"

section \<open>CameraService\<close>

definition mapConditionFromGrade :: "rat option \<Rightarrow> string" where
  "mapConditionFromGrade grade =
    (case grade of None \<Rightarrow> ''Unknown''
     | Some g \<Rightarrow>
        if g = 0 then ''Unknown''
        else if g \<ge> 10 then ''Gem Mint''
        else if g \<ge> 9 then ''Mint''
        else if g \<ge> 8 then ''Near Mint/Mint''
        else if g \<ge> 7 then ''Near Mint''
        else if g \<ge> 6 then ''Excellent''
        else if g \<ge> 5 then ''Very Good''
        else if g \<ge> 4 then ''Good''
        else if g \<ge> 3 then ''Fair''
        else if g \<ge> 2 then ''Poor''
        else ''Damaged'')"

definition mapRarityFromGrade :: "rat \<Rightarrow> string" where
  "mapRarityFromGrade grade =
    (if grade \<ge> 19/2 then ''Ultra Rare''
     else if grade \<ge> 17/2 then ''Rare''
     else if grade \<ge> 7 then ''Uncommon''
     else ''Common'')"

text \<open>\<open>parts.join(sep)\<close>.\<close>

fun join :: "string \<Rightarrow> string list \<Rightarrow> string" where
  "join sep [] = []"
| "join sep [x] = x"
| "join sep (x # y # ys) = x @ sep @ join sep (y # ys)"

text \<open>
  \<open>numToString\<close> is the conversion of a number to a string that a template literal
  applies: a function of the language, taken as a parameter.
\<close>

definition generateCardNameFromGrading :: "(rat \<Rightarrow> string) \<Rightarrow> XimilarGradingResult \<Rightarrow> string" where
  "generateCardNameFromGrading numToString gradingResult =
    (let categ = or_str (Some (category gradingResult)) ''Trading Card'';
         subcat = subcategory gradingResult;
         grade = finalGrade gradingResult;
         parts1 = (if grade \<ge> 9 then [''Premium'']
                   else if grade \<ge> 8 then [''Mint'']
                   else if grade \<ge> 7 then [''Excellent'']
                   else if grade \<ge> 5 then [''Good'']
                   else if isDamaged gradingResult then [''Damaged'']
                   else []);
         parts2 = parts1 @ [case subcat of None \<Rightarrow> categ | Some s \<Rightarrow> if s = [] then categ else s];
         nameParts = parts2 @ (if hasAutograph gradingResult then [''(Autographed)''] else [])
     in if length nameParts = 0 then ''Graded Card ('' @ numToString grade @ ''/10)''
        else join '' '' nameParts)"

record ScanOutcome =
  card_s :: Card
  confidence_s :: rat
  gradingResult :: "XimilarGradingResult option"

text \<open>
  \<open>recognizeCard\<close>, given the outcome of \<open>await XimilarApiService.gradeCard(imageUri)\<close>;
  \<open>now\<close> is \<open>Date.now()\<close> and \<open>fullYear\<close> is \<open>new Date().getFullYear()\<close>. The \<open>Inl\<close>
  case is the \<open>catch\<close> block.
\<close>

definition recognizeCard ::
  "(rat \<Rightarrow> string) \<Rightarrow> nat \<Rightarrow> int \<Rightarrow> string \<Rightarrow> js_error + XimilarGradingResult \<Rightarrow> js_error + ScanOutcome" where
  "recognizeCard numToString now fullYear imageUri graded =
    (case graded of
       Inr g \<Rightarrow>
         Inr \<lparr>card_s =
                \<lparr>id' = ''ximilar_'' @ show_nat now,
                 name = generateCardNameFromGrading numToString g,
                 set' = or_str (Some (category g)) ''Trading Card Collection'',
                 rarity = mapRarityFromGrade (finalGrade g),
                 condition = mapConditionFromGrade (Some (finalGrade g)),
                 price = PNum 0,
                 imageUrl = imageUri,
                 description = ''Graded '' @ category g @ '' card. Final grade: ''
                    @ numToString (finalGrade g) @ ''/10. Surface: ''
                    @ numToString (surfaceGrade g) @ ''/10. ''
                    @ (if isDamaged g then ''Shows damage. '' else ''In good condition. '')
                    @ (if hasAutograph g then ''Has autograph. '' else ''''),
                 artist = ''Unknown'',
                 year = fullYear,
                 type' = or_str (subcategory g) (or_str (Some (category g)) ''Trading Card''),
                 types = None,
                 hp = None,
                 apiData = Some \<lparr>ximilarId = None, confidence_a = Some (confidence g),
                                  grade_a = Some (finalGrade g), gradingService = Some ''Ximilar''\<rparr>\<rparr>,
              confidence_s = confidence g,
              gradingResult = Some g\<rparr>
     | Inl err \<Rightarrow>
         (let fallbackCard = (createMockCard now)
                \<lparr>imageUrl := imageUri,
                 name := ''Unrecognized Card'',
                 description := ''Card could not be identified. Please try again or add details manually.''\<rparr>
          in Inr \<lparr>card_s = fallbackCard, confidence_s = 1/10, gradingResult = None\<rparr>))"

text \<open>The pipeline: \<open>recognizeCard\<close> on the outcome of \<open>gradeCard\<close> for the same image.\<close>

definition recognize ::
  "(rat \<Rightarrow> string) \<Rightarrow> nat \<Rightarrow> int \<Rightarrow> (string \<Rightarrow> js_error + XimilarApiResponse option) \<Rightarrow> string
     \<Rightarrow> js_error + ScanOutcome" where
  "recognize numToString now fullYear request imageUri =
     recognizeCard numToString now fullYear imageUri (gradeCard request imageUri)"

section \<open>StorageService\<close>

record UserSettings =
  darkMode :: bool
  notifications :: bool
  offlineMode :: bool

definition COLLECTION_KEY :: string where
  "COLLECTION_KEY = ''@tcg_collection''"

definition SETTINGS_KEY :: string where
  "SETTINGS_KEY = ''@tcg_settings''"

text \<open>
  \<open>getItem\<close> is the outcome of \<open>AsyncStorage.getItem\<close> for a key: it rejects, or resolves
  to \<open>null\<close> or to the stored text. \<open>JSON_parse\<close> is \<open>JSON.parse\<close> read at the declared
  result type: it throws on malformed text. The inner \<open>case\<close> is the \<open>try\<close> block, the
  outer one the \<open>catch\<close>.
\<close>

definition loadCollection ::
  "(string \<Rightarrow> js_error + string option) \<Rightarrow> (string \<Rightarrow> js_error + CollectionCard list)
     \<Rightarrow> js_error + CollectionCard list" where
  "loadCollection getItem JSON_parse =
    (case (case getItem COLLECTION_KEY of
             Inl err \<Rightarrow> Inl err
           | Inr jsonValue \<Rightarrow> (case jsonValue of Some j \<Rightarrow> JSON_parse j | None \<Rightarrow> Inr []))
     of Inl err \<Rightarrow> Inr []
      | Inr v \<Rightarrow> Inr v)"

definition loadSettings ::
  "(string \<Rightarrow> js_error + string option) \<Rightarrow> (string \<Rightarrow> js_error + UserSettings)
     \<Rightarrow> js_error + UserSettings" where
  "loadSettings getItem JSON_parse =
    (case (case getItem SETTINGS_KEY of
             Inl err \<Rightarrow> Inl err
           | Inr jsonValue \<Rightarrow>
               (case jsonValue of
                  Some j \<Rightarrow> JSON_parse j
                | None \<Rightarrow> Inr \<lparr>darkMode = False, notifications = True, offlineMode = False\<rparr>))
     of Inl err \<Rightarrow> Inr \<lparr>darkMode = False, notifications = True, offlineMode = False\<rparr>
      | Inr v \<Rightarrow> Inr v)"

section \<open>Sample collaborators\<close>

text \<open>
  A stand-in for the language's number-to-string conversion in examples: the digits of
  the integer part.
\<close>

definition sample_numToString :: "rat \<Rightarrow> string" where
  "sample_numToString x = (if x < 0 then ''-'' else '''') @ show_nat (nat \<lfloor>\<bar>x\<bar>\<rfloor>)"

definition failing_request :: "string \<Rightarrow> js_error + XimilarApiResponse option" where
  "failing_request u = Inl (AxiosError None None ''Network Error'')"

definition no_grades_request :: "string \<Rightarrow> js_error + XimilarApiResponse option" where
  "no_grades_request u = Inr (Some \<lparr>records = Some [bare_record\<lparr>grades := None\<rparr>]\<rparr>)"

definition sample_storage :: "string \<Rightarrow> js_error + string option" where
  "sample_storage k = (if k = COLLECTION_KEY then Inr (Some ''[stored cards]'')
                       else if k = SETTINGS_KEY then Inr (Some ''{stored settings}'')
                       else Inr None)"

definition empty_storage :: "string \<Rightarrow> js_error + string option" where
  "empty_storage k = Inr None"

definition failing_storage :: "string \<Rightarrow> js_error + string option" where
  "failing_storage k = Inl (Error ''storage unavailable'')"

definition corrupt_storage :: "string \<Rightarrow> js_error + string option" where
  "corrupt_storage k = Inr (Some ''{'')"

definition sample_settings :: UserSettings where
  "sample_settings = \<lparr>darkMode = True, notifications = False, offlineMode = True\<rparr>"

definition sample_parse_cards :: "string \<Rightarrow> js_error + CollectionCard list" where
  "sample_parse_cards j = (if j = ''[stored cards]'' then Inr (cards sample_state)
                           else Inl (Error ''SyntaxError''))"

definition sample_parse_settings :: "string \<Rightarrow> js_error + UserSettings" where
  "sample_parse_settings j = (if j = ''{stored settings}'' then Inr sample_settings
                              else Inl (Error ''SyntaxError''))"

section \<open>Condition bands\<close>

text \<open>The place of a condition label in the table of \<open>mapConditionFromGrade\<close>, lowest first.\<close>

definition condition_rank :: "string \<Rightarrow> nat" where
  "condition_rank label =
    (if label = ''Gem Mint'' then 9
     else if label = ''Mint'' then 8
     else if label = ''Near Mint/Mint'' then 7
     else if label = ''Near Mint'' then 6
     else if label = ''Excellent'' then 5
     else if label = ''Very Good'' then 4
     else if label = ''Good'' then 3
     else if label = ''Fair'' then 2
     else if label = ''Poor'' then 1
     else 0)"

text \<open>The band of a grade: the number of thresholds 2, 3, ..., 10 that it reaches.\<close>

definition band :: "rat \<Rightarrow> nat" where
  "band g = length (filter (\<lambda>t. rat_of_nat t \<le> g) [2, 3, 4, 5, 6, 7, 8, 9, 10])"

section \<open>Numbers as the code holds them\<close>

text \<open>
  A JavaScript number is an IEEE 754 double: a rational of the form \<open>n * 2^k\<close> with
  \<open>|n| < 2^53\<close> and \<open>-1074 \<le> k \<le> 971\<close>, an infinity, or \<open>NaN\<close>. The sign of zero
  is not modelled: the functions below treat both zeros alike.
\<close>

datatype jsnum = Fin rat | PInf | NInf | NaN

function bit_length :: "nat \<Rightarrow> nat" where
  "bit_length n = (if n = 0 then 0 else Suc (bit_length (n div 2)))"
  by pat_completeness auto
termination
  by (relation "measure (\<lambda>n. n)") auto

declare bit_length.simps [simp del]

definition pow2 :: "int \<Rightarrow> rat" where
  "pow2 e = (if e \<ge> 0 then 2 ^ nat e else 1 / 2 ^ nat (- e))"

text \<open>For \<open>a > 0\<close>, the integer \<open>e\<close> with \<open>2^e \<le> a < 2^(e+1)\<close>.\<close>

definition ilog2 :: "rat \<Rightarrow> int" where
  "ilog2 a = (if a \<ge> 1 then int (bit_length (nat \<lfloor>a\<rfloor>)) - 1
              else - int (bit_length (nat (\<lceil>1 / a\<rceil> - 1))))"

definition round_half_even :: "rat \<Rightarrow> int" where
  "round_half_even y =
    (let f = \<lfloor>y\<rfloor>; r = y - of_int f
     in if r < 1 / 2 then f else if r > 1 / 2 then f + 1 else if even f then f else f + 1)"

text \<open>
  The double nearest to a rational, ties to the even significand, an infinity from
  \<open>2^1024 - 2^970\<close> on: the rounding of every arithmetic operation and of the reading
  of a decimal literal. The spacing of the doubles around \<open>a\<close> is \<open>2^(e - 52)\<close>, with
  \<open>e\<close> not below \<open>-1022\<close>.
\<close>

definition round_double :: "rat \<Rightarrow> jsnum" where
  "round_double x =
    (if x = 0 then Fin 0
     else
      (let a = \<bar>x\<bar> in
       if a \<ge> 2 ^ 1024 - 2 ^ 970 then (if x > 0 then PInf else NInf)
       else
        (let e = max (ilog2 a) (- 1022);
             q = pow2 (e - 52);
             v = of_int (round_half_even (a / q)) * q
         in Fin (if x < 0 then - v else v))))"

fun jneg :: "jsnum \<Rightarrow> jsnum" where
  "jneg (Fin a) = Fin (- a)"
| "jneg PInf = NInf"
| "jneg NInf = PInf"
| "jneg NaN = NaN"

text \<open>\<open>x + y\<close> and \<open>x * y\<close>.\<close>

fun jadd :: "jsnum \<Rightarrow> jsnum \<Rightarrow> jsnum" where
  "jadd NaN y = NaN"
| "jadd x NaN = NaN"
| "jadd (Fin a) (Fin b) = round_double (a + b)"
| "jadd PInf NInf = NaN"
| "jadd NInf PInf = NaN"
| "jadd PInf y = PInf"
| "jadd x PInf = PInf"
| "jadd NInf y = NInf"
| "jadd x NInf = NInf"

fun jmul :: "jsnum \<Rightarrow> jsnum \<Rightarrow> jsnum" where
  "jmul NaN y = NaN"
| "jmul x NaN = NaN"
| "jmul (Fin a) (Fin b) = round_double (a * b)"
| "jmul (Fin a) y = (if a = 0 then NaN else if a > 0 then y else jneg y)"
| "jmul x (Fin b) = (if b = 0 then NaN else if b > 0 then x else jneg x)"
| "jmul x y = (if x = y then PInf else NInf)"

section \<open>CollectionViewModel\<close>

text \<open>\<open>x || 0\<close> on a number: \<open>NaN\<close> and 0 are falsy.\<close>

definition or_zero :: "jsnum \<Rightarrow> jsnum" where
  "or_zero x = (case x of NaN \<Rightarrow> Fin 0 | Fin v \<Rightarrow> if v = 0 then Fin 0 else Fin v | _ \<Rightarrow> x)"

text \<open>
  \<open>parseFloat\<close>: leading white space is skipped, then the longest prefix that is a
  decimal literal is read (a sign, then \<open>Infinity\<close>, or digits with an optional
  fraction, or a fraction alone, then an optional exponent); what follows is ignored.
  The result is the double nearest to the value of the literal, and \<open>NaN\<close> when there is
  no literal.
\<close>

definition is_digit :: "char \<Rightarrow> bool" where
  "is_digit c = (c \<in> set ''0123456789'')"

definition digit_val :: "char \<Rightarrow> nat" where
  "digit_val c = length (takeWhile (\<lambda>d. d \<noteq> c) ''0123456789'')"

definition digits_val :: "string \<Rightarrow> nat" where
  "digits_val ds = foldl (\<lambda>n c. 10 * n + digit_val c) 0 ds"

definition parse_sign :: "string \<Rightarrow> bool \<times> string" where
  "parse_sign s =
    (case s of
       [] \<Rightarrow> (False, [])
     | c # cs \<Rightarrow> if c = CHR ''-'' then (True, cs) else if c = CHR ''+'' then (False, cs) else (False, s))"

definition parse_exponent :: "string \<Rightarrow> int" where
  "parse_exponent s =
    (case s of
       [] \<Rightarrow> 0
     | c # cs \<Rightarrow>
         if c = CHR ''e'' \<or> c = CHR ''E''
         then (let (neg, r) = parse_sign cs; ds = takeWhile is_digit r
               in if ds = [] then 0 else if neg then - int (digits_val ds) else int (digits_val ds))
         else 0)"

definition scale10 :: "rat \<Rightarrow> int \<Rightarrow> rat" where
  "scale10 x e = (if e \<ge> 0 then x * 10 ^ nat e else x / 10 ^ nat (- e))"

definition parseFloat :: "string \<Rightarrow> jsnum" where
  "parseFloat s =
    (let (neg, s1) = parse_sign (skip_seqs ws_seqs s) in
     if take 8 s1 = ''Infinity'' then (if neg then NInf else PInf)
     else
      (let ip = takeWhile is_digit s1;
           r1 = dropWhile is_digit s1;
           has_dot = (case r1 of [] \<Rightarrow> False | c # _ \<Rightarrow> c = CHR ''.'');
           fp = (if has_dot then takeWhile is_digit (tl r1) else []);
           r2 = (if has_dot then dropWhile is_digit (tl r1) else r1)
       in if ip = [] \<and> fp = [] then NaN
          else (let v = scale10 (rat_of_nat (digits_val (ip @ fp)) / 10 ^ length fp) (parse_exponent r2)
                in round_double (if neg then - v else v))))"

text \<open>
  \<open>x.toFixed(f)\<close>. A value that is not finite gives its name. Otherwise the sign is set
  aside; from \<open>10^21\<close> on the rest is the number's ordinary string (\<open>numToString\<close>);
  below, it is the digits of the integer nearest to \<open>|x| * 10^f\<close> (the larger one on a
  tie), padded with zeros to more than \<open>f\<close> digits, with a point before the last \<open>f\<close>.
\<close>

definition toFixed :: "(rat \<Rightarrow> string) \<Rightarrow> nat \<Rightarrow> jsnum \<Rightarrow> string" where
  "toFixed numToString f x =
    (case x of
       NaN \<Rightarrow> ''NaN''
     | PInf \<Rightarrow> ''Infinity''
     | NInf \<Rightarrow> ''-Infinity''
     | Fin v \<Rightarrow>
        (let s = (if v < 0 then ''-'' else '''');
             a = \<bar>v\<bar>
         in if a \<ge> 10 ^ 21 then s @ numToString a
            else
             (let n = nat \<lfloor>a * 10 ^ f + 1 / 2\<rfloor>;
                  m0 = show_nat n;
                  k = length m0;
                  m = (if f \<noteq> 0 \<and> k \<le> f then replicate (f + 1 - k) CHR ''0'' @ m0 else m0)
              in if f \<noteq> 0 then s @ take (length m - f) m @ ''.'' @ drop (length m - f) m
                 else s @ m)))"

text \<open>
  \<open>getTotalValue\<close>. \<open>cardPrice.replace('$', '')\<close> removes the first dollar sign. A
  numeric price and a quantity are held by the code as doubles: the double nearest to
  the number of the data model, that number itself when it is a double.
\<close>

definition getTotalValue :: "(rat \<Rightarrow> string) \<Rightarrow> CollectionCard list \<Rightarrow> string" where
  "getTotalValue numToString cs =
    (let total = foldl (\<lambda>sum c.
                   let p = (case price c of
                              PStr cardPrice \<Rightarrow> or_zero (parseFloat (remove1 CHR ''$'' cardPrice))
                            | PNum cardPrice \<Rightarrow> round_double cardPrice)
                   in jadd sum (jmul p (round_double (of_int (quantity c))))) (Fin 0) cs
     in ''$'' @ toFixed numToString 2 total)"

section \<open>The value of a collection\<close>

text \<open>
  The price of an entry as the number the code computes with: a numeric price as it
  is, a text price parsed after its first dollar sign is removed, and 0 when the text
  has no number. The value of an entry is its price times its quantity; the total is
  the sum of the values from left to right, each operation rounded as doubles are.
\<close>

definition price_number :: "price_val \<Rightarrow> jsnum" where
  "price_number p =
    (case p of
       PNum x \<Rightarrow> round_double x
     | PStr s \<Rightarrow> (case parseFloat (remove1 CHR ''$'' s) of NaN \<Rightarrow> Fin 0 | v \<Rightarrow> v))"

definition entry_value :: "CollectionCard \<Rightarrow> jsnum" where
  "entry_value c = jmul (price_number (price c)) (round_double (of_int (quantity c)))"

definition dsum :: "jsnum list \<Rightarrow> jsnum" where
  "dsum xs = foldl jadd (Fin 0) xs"

definition priced_card :: "string \<Rightarrow> price_val \<Rightarrow> int \<Rightarrow> CollectionCard" where
  "priced_card i p q = spread_card ((sample_card i)\<lparr>price := p\<rparr>) q ''t0''"

definition legacy_collection :: "CollectionCard list" where
  "legacy_collection = [priced_card ''a'' (PStr ''$25.50'') 2, priced_card ''b'' (PNum 12) 1]"

definition sub_cent_collection :: "CollectionCard list" where
  "sub_cent_collection = [priced_card ''a'' (PNum (1/1000)) 1]"

definition unparsable_collection :: "CollectionCard list" where
  "unparsable_collection = [priced_card ''a'' (PStr ''n/a'') 3, priced_card ''b'' (PNum 12) 1]"

definition half_cent_text_collection :: "CollectionCard list" where
  "half_cent_text_collection = [priced_card ''a'' (PStr ''$1.005'') 1]"

definition half_cent_sum_collection :: "CollectionCard list" where
  "half_cent_sum_collection = [priced_card ''a'' (PNum 1) 1, priced_card ''b'' (PNum (5/1000)) 1]"

definition eighth_collection :: "CollectionCard list" where
  "eighth_collection = [priced_card ''a'' (PNum (1/8)) 1]"

definition nbsp_collection :: "CollectionCard list" where
  "nbsp_collection = [priced_card ''a'' (PStr ([CHR 0xC2, CHR 0xA0] @ ''7.5'')) 2]"

definition overflow_collection :: "CollectionCard list" where
  "overflow_collection = [priced_card ''a'' (PStr ''1e400'') 1]"

text \<open>
  An entry with a whole numeric price and a quantity, both from 0 up to \<open>2^53\<close>, and its
  value as an integer.
\<close>

definition whole_entry :: "CollectionCard \<Rightarrow> bool" where
  "whole_entry c =
    ((case price c of PNum x \<Rightarrow> 0 \<le> x \<and> x < 2 ^ 53 \<and> x = of_int \<lfloor>x\<rfloor> | PStr s \<Rightarrow> False)
     \<and> 0 \<le> quantity c \<and> quantity c < 2 ^ 53)"

definition whole_value :: "CollectionCard \<Rightarrow> int" where
  "whole_value c = (case price c of PNum x \<Rightarrow> \<lfloor>x\<rfloor> | PStr s \<Rightarrow> 0) * quantity c"

definition whole_collection :: "CollectionCard list" where
  "whole_collection = [priced_card ''a'' (PNum 7) 3, priced_card ''b'' (PNum 0) 5,
                       priced_card ''c'' (PNum 12) 1]"

section \<open>Removing a card\<close>

lemma filter_absent: "\<forall>c\<in>set cs. p c \<Longrightarrow> filter p cs = cs"
  by (induction cs) auto

text \<open>
  C8. For every collection state and id, \<open>removeCard\<close> (the reducer and the method of
  \<open>CollectionModel\<close>) returns the state with the entries of that id filtered out and
  every other field as it was; it changes nothing when no entry matches; and a second
  removal of the same id leaves the result of the first unchanged. Neither function
  has a failing path.
\<close>

theorem removeCard_idempotent:
  "cards (removeCard i st) = filter (\<lambda>c. id' c \<noteq> i) (cards st)
   \<and> isLoading (removeCard i st) = isLoading st
   \<and> error (removeCard i st) = error st
   \<and> ((\<forall>c\<in>set (cards st). id' c \<noteq> i) \<longrightarrow> removeCard i st = st)
   \<and> removeCard i (removeCard i st) = removeCard i st
   \<and> CollectionModel_removeCard i cs = filter (\<lambda>c. id' c \<noteq> i) cs
   \<and> ((\<forall>c\<in>set cs. id' c \<noteq> i) \<longrightarrow> CollectionModel_removeCard i cs = cs)
   \<and> CollectionModel_removeCard i (CollectionModel_removeCard i cs) = CollectionModel_removeCard i cs"
  by (simp add: removeCard_def CollectionModel_removeCard_def filter_absent)

theorem removeCard_idempotent_witness:
  "''z'' \<notin> set (map id' (cards sample_state))
   \<and> removeCard ''z'' sample_state = sample_state
   \<and> cards (removeCard ''a'' sample_state) = [spread_card (sample_card ''b'') 1 ''t1'']
   \<and> removeCard ''a'' (removeCard ''a'' sample_state) = removeCard ''a'' sample_state
   \<and> CollectionModel_removeCard ''z'' (cards sample_state) = cards sample_state"
proof -
  have h: "\<forall>c\<in>set (cards sample_state). id' c \<noteq> ''z''"
    by (simp add: sample_state_def spread_card_def sample_card_def Card.extend_def)
  have a: "cards (removeCard ''a'' sample_state) = [spread_card (sample_card ''b'') 1 ''t1'']"
    by (simp add: removeCard_def sample_state_def spread_card_def sample_card_def Card.extend_def)
  from removeCard_idempotent [of "''z''" sample_state "cards sample_state"] h
  have "removeCard ''z'' sample_state = sample_state"
    and "CollectionModel_removeCard ''z'' (cards sample_state) = cards sample_state"
    by blast+
  moreover from removeCard_idempotent [of "''a''" sample_state "[]"]
  have "removeCard ''a'' (removeCard ''a'' sample_state) = removeCard ''a'' sample_state"
    by blast
  moreover have "''z'' \<notin> set (map id' (cards sample_state))"
    using h by auto
  ultimately show ?thesis using a by blast
qed

lemma update_first_index:
  "i < length xs \<Longrightarrow> p (xs ! i) \<Longrightarrow> \<forall>j<i. \<not> p (xs ! j) \<Longrightarrow> update_first p f xs = xs[i := f (xs ! i)]"
proof (induction xs arbitrary: i)
  case Nil
  then show ?case by simp
next
  case (Cons x xs)
  show ?case
  proof (cases i)
    case 0
    with Cons.prems show ?thesis by simp
  next
    case (Suc k)
    with Cons.prems have "\<not> p x" by auto
    moreover from Suc Cons.prems have "k < length xs" "p (xs ! k)" "\<forall>j<k. \<not> p (xs ! j)" by auto
    ultimately show ?thesis using Cons.IH [of k] Suc by simp
  qed
qed

lemma find_first_index:
  "i < length xs \<Longrightarrow> p (xs ! i) \<Longrightarrow> List.find p xs \<noteq> None"
  by (metis find_None_iff nth_mem)

section \<open>Adding a card\<close>

text \<open>
  C10. When the collection already holds an entry with the payload's id, the
  \<open>addCard\<close> reducer adds the payload's \<open>quantity\<close> to the quantity of the first such
  entry and changes nothing else: the entry keeps its place and its other fields, the
  other entries and the other fields of the state are as before. When no entry has that
  id, the payload itself is appended at the end.
\<close>

theorem addCard_frame:
  "(\<forall>i. i < length (cards st) \<and> id' (cards st ! i) = id' p \<and> (\<forall>j<i. id' (cards st ! j) \<noteq> id' p)
       \<longrightarrow> addCard p st = st\<lparr>cards := (cards st)[i := (cards st ! i)\<lparr>quantity := quantity (cards st ! i) + quantity p\<rparr>]\<rparr>)
   \<and> ((\<forall>c\<in>set (cards st). id' c \<noteq> id' p) \<longrightarrow> addCard p st = st\<lparr>cards := cards st @ [p]\<rparr>)"
proof (intro conjI allI impI)
  fix i
  assume h: "i < length (cards st) \<and> id' (cards st ! i) = id' p \<and> (\<forall>j<i. id' (cards st ! j) \<noteq> id' p)"
  then have "List.find (\<lambda>c. id' c = id' p) (cards st) \<noteq> None"
    using find_first_index [of i "cards st" "\<lambda>c. id' c = id' p"] by simp
  then obtain e where "List.find (\<lambda>c. id' c = id' p) (cards st) = Some e" by auto
  moreover have "update_first (\<lambda>c. id' c = id' p) (\<lambda>c. c\<lparr>quantity := quantity c + quantity p\<rparr>) (cards st)
      = (cards st)[i := (cards st ! i)\<lparr>quantity := quantity (cards st ! i) + quantity p\<rparr>]"
    using h by (intro update_first_index) auto
  ultimately show "addCard p st = st\<lparr>cards := (cards st)[i := (cards st ! i)\<lparr>quantity := quantity (cards st ! i) + quantity p\<rparr>]\<rparr>"
    by (simp add: addCard_def)
next
  assume "\<forall>c\<in>set (cards st). id' c \<noteq> id' p"
  then have "List.find (\<lambda>c. id' c = id' p) (cards st) = None"
    by (simp add: find_None_iff)
  then show "addCard p st = st\<lparr>cards := cards st @ [p]\<rparr>"
    by (simp add: addCard_def)
qed

theorem addCard_frame_witness:
  "addCard (spread_card (sample_card ''b'') 3 ''t9'') sample_state
     = sample_state\<lparr>cards := [spread_card (sample_card ''a'') 2 ''t0'',
                                spread_card (sample_card ''b'') 4 ''t1'']\<rparr>
   \<and> addCard (spread_card (sample_card ''z'') 3 ''t9'') sample_state
     = sample_state\<lparr>cards := [spread_card (sample_card ''a'') 2 ''t0'',
                                spread_card (sample_card ''b'') 1 ''t1'',
                                spread_card (sample_card ''z'') 3 ''t9'']\<rparr>"
proof -
  let ?p = "spread_card (sample_card ''b'') 3 ''t9''"
  let ?z = "spread_card (sample_card ''z'') 3 ''t9''"
  have h1: "(1::nat) < length (cards sample_state) \<and> id' (cards sample_state ! 1) = id' ?p
            \<and> (\<forall>j<1. id' (cards sample_state ! j) \<noteq> id' ?p)"
    by (simp add: sample_state_def spread_card_def sample_card_def Card.extend_def)
  have h2: "\<forall>c\<in>set (cards sample_state). id' c \<noteq> id' ?z"
    by (simp add: sample_state_def spread_card_def sample_card_def Card.extend_def)
  from addCard_frame [of sample_state ?p] h1
  have "addCard ?p sample_state = sample_state\<lparr>cards := (cards sample_state)
          [1 := (cards sample_state ! 1)\<lparr>quantity := quantity (cards sample_state ! 1) + quantity ?p\<rparr>]\<rparr>"
    by blast
  moreover from addCard_frame [of sample_state ?z] h2
  have "addCard ?z sample_state = sample_state\<lparr>cards := cards sample_state @ [?z]\<rparr>"
    by blast
  ultimately show ?thesis
    by (simp add: sample_state_def spread_card_def sample_card_def Card.extend_def)
qed
















section \<open>Normalising a grading response\<close>

text \<open>
  C3. \<open>processGradingResponse\<close> fails exactly when the record has no \<open>grades\<close> block,
  with the error "No grading data found in the response"; a record that has the block
  is normalised whatever else is missing.
\<close>

theorem processGradingResponse_fails_iff:
  "((\<exists>e. processGradingResponse r = Inl e) \<longleftrightarrow> grades r = None)
   \<and> (grades r = None \<longrightarrow> processGradingResponse r = Inl (Error ''No grading data found in the response''))
   \<and> (grades r \<noteq> None \<longrightarrow> (\<exists>g. processGradingResponse r = Inr g))"
  by (cases "grades r") (simp_all add: processGradingResponse_def Let_def)

theorem processGradingResponse_fails_iff_witness:
  "grades bare_record \<noteq> None
   \<and> (\<exists>g. processGradingResponse bare_record = Inr g)
   \<and> \<not> (\<exists>e. processGradingResponse bare_record = Inl e)
   \<and> grades (bare_record\<lparr>grades := None\<rparr>) = None
   \<and> processGradingResponse (bare_record\<lparr>grades := None\<rparr>)
       = Inl (Error ''No grading data found in the response'')"
proof -
  have h1: "grades bare_record \<noteq> None" by (simp add: bare_record_def)
  have h2: "grades (bare_record\<lparr>grades := None\<rparr>) = None" by simp
  from processGradingResponse_fails_iff [of bare_record] h1
  have "(\<exists>g. processGradingResponse bare_record = Inr g)
        \<and> \<not> (\<exists>e. processGradingResponse bare_record = Inl e)" by blast
  moreover from processGradingResponse_fails_iff [of "bare_record\<lparr>grades := None\<rparr>"] h2
  have "processGradingResponse (bare_record\<lparr>grades := None\<rparr>)
       = Inl (Error ''No grading data found in the response'')" by blast
  ultimately show ?thesis using h1 h2 by blast
qed

lemma first_name_tag_value:
  "first_name (cat (case first (card' r) of None \<Rightarrow> no_tags
                    | Some cd \<Rightarrow> (case tags cd of None \<Rightarrow> no_tags | Some t \<Rightarrow> t)))
   = (if cat no_tags = None then tag_value cat r else
       (case first (card' r) of None \<Rightarrow> first_name (cat no_tags)
        | Some cd \<Rightarrow> (case tags cd of None \<Rightarrow> first_name (cat no_tags) | Some t \<Rightarrow> first_name (cat t))))"
  by (auto simp: first_name_def first_def tag_value_def split: option.splits list.splits)

lemma tag_value_Damaged:
  "processGradingResponse r = Inr g \<Longrightarrow> isDamaged g = (tag_value Damaged r \<noteq> Some ''OK'')"
  using first_name_tag_value [of Damaged r]
  by (auto simp: processGradingResponse_def Let_def no_tags_def split: option.splits)

lemma tag_value_Autograph:
  "processGradingResponse r = Inr g \<Longrightarrow> hasAutograph g = (tag_value Autograph r = Some ''Yes'')"
  using first_name_tag_value [of Autograph r]
  by (auto simp: processGradingResponse_def Let_def no_tags_def split: option.splits)

lemma tag_value_Side:
  "processGradingResponse r = Inr g \<Longrightarrow> isfront g = (tag_value Side r = Some ''Front'')"
  using first_name_tag_value [of Side r]
  by (auto simp: processGradingResponse_def Let_def no_tags_def split: option.splits)

lemma scenario_eval:
  "processGradingResponse scenario_record =
     Inr \<lparr>finalGrade = 17/2, cornerGrade = 0, edgeGrade = 0, surfaceGrade = 0, centeringGrade = 0,
          confidence = 19/20, category = ''Trading Card'', subcategory = None,
          isDamaged = True, hasAutograph = False, isfront = False, imageUrl_g = None,
          cardName = None, setName = None, rarity_g = None, cardNumber = None, year_g = None\<rparr>"
  by (simp add: processGradingResponse_def scenario_record_def no_tags_def no_grades_def
        first_def first_name_def or_num_def or_str_def or_opt_def)

text \<open>
  C4. Every response that has a \<open>grades\<close> block is normalised, and in the result
  \<open>isDamaged\<close> is true unless the value of the Damaged tag is "OK", \<open>hasAutograph\<close> is
  true only if the value of the Autograph tag is "Yes", and \<open>isfront\<close> is true only if
  the value of the Side tag is "Front"; so an absent Damaged tag gives \<open>isDamaged\<close>, an
  absent Autograph or Side tag gives false. The response with final grade 8.5, a card
  detected with probability 0.95, no Damaged tag, Autograph "No" and Side "Back" is
  normalised to final grade 8.5, confidence 0.95, damaged, not autographed, not the
  front.
\<close>

theorem tag_booleans:
  "(grades r \<noteq> None \<longrightarrow>
      (\<exists>g. processGradingResponse r = Inr g
         \<and> isDamaged g = (tag_value Damaged r \<noteq> Some ''OK'')
         \<and> hasAutograph g = (tag_value Autograph r = Some ''Yes'')
         \<and> isfront g = (tag_value Side r = Some ''Front'')
         \<and> (tag_value Damaged r = None \<longrightarrow> isDamaged g)
         \<and> (tag_value Autograph r = None \<longrightarrow> \<not> hasAutograph g)
         \<and> (tag_value Side r = None \<longrightarrow> \<not> isfront g)))
   \<and> (processGradingResponse r = Inr g' \<longrightarrow>
         isDamaged g' = (tag_value Damaged r \<noteq> Some ''OK'')
       \<and> hasAutograph g' = (tag_value Autograph r = Some ''Yes'')
       \<and> isfront g' = (tag_value Side r = Some ''Front''))
   \<and> grades scenario_record \<noteq> None
   \<and> tag_value Damaged scenario_record = None
   \<and> tag_value Autograph scenario_record = Some ''No''
   \<and> tag_value Side scenario_record = Some ''Back''
   \<and> (\<exists>s. processGradingResponse scenario_record = Inr s \<and> finalGrade s = 17/2
          \<and> confidence s = 19/20 \<and> isDamaged s \<and> \<not> hasAutograph s \<and> \<not> isfront s)"
proof (intro conjI impI)
  assume "grades r \<noteq> None"
  then obtain g where a: "processGradingResponse r = Inr g"
    by (auto simp: processGradingResponse_def Let_def)
  have d: "isDamaged g = (tag_value Damaged r \<noteq> Some ''OK'')" using a by (rule tag_value_Damaged)
  have h: "hasAutograph g = (tag_value Autograph r = Some ''Yes'')" using a by (rule tag_value_Autograph)
  have f: "isfront g = (tag_value Side r = Some ''Front'')" using a by (rule tag_value_Side)
  from a d h f show "\<exists>g. processGradingResponse r = Inr g
         \<and> isDamaged g = (tag_value Damaged r \<noteq> Some ''OK'')
         \<and> hasAutograph g = (tag_value Autograph r = Some ''Yes'')
         \<and> isfront g = (tag_value Side r = Some ''Front'')
         \<and> (tag_value Damaged r = None \<longrightarrow> isDamaged g)
         \<and> (tag_value Autograph r = None \<longrightarrow> \<not> hasAutograph g)
         \<and> (tag_value Side r = None \<longrightarrow> \<not> isfront g)"
    by auto
next
  assume a: "processGradingResponse r = Inr g'"
  show "isDamaged g' = (tag_value Damaged r \<noteq> Some ''OK'')" using a by (rule tag_value_Damaged)
  show "hasAutograph g' = (tag_value Autograph r = Some ''Yes'')" using a by (rule tag_value_Autograph)
  show "isfront g' = (tag_value Side r = Some ''Front'')" using a by (rule tag_value_Side)
next
  show "grades scenario_record \<noteq> None"
    by (simp add: scenario_record_def)
  show "tag_value Damaged scenario_record = None"
    by (simp add: tag_value_def scenario_record_def no_tags_def)
  show "tag_value Autograph scenario_record = Some ''No''"
    by (simp add: tag_value_def scenario_record_def no_tags_def)
  show "tag_value Side scenario_record = Some ''Back''"
    by (simp add: tag_value_def scenario_record_def no_tags_def)
  show "\<exists>s. processGradingResponse scenario_record = Inr s \<and> finalGrade s = 17/2
          \<and> confidence s = 19/20 \<and> isDamaged s \<and> \<not> hasAutograph s \<and> \<not> isfront s"
    by (simp add: scenario_eval)
qed

theorem tag_booleans_witness:
  "grades scenario_record \<noteq> None
   \<and> tag_value Damaged scenario_record = None
   \<and> tag_value Autograph scenario_record = Some ''No''
   \<and> tag_value Side scenario_record = Some ''Back''
   \<and> (\<exists>s. processGradingResponse scenario_record = Inr s
          \<and> isDamaged s \<and> \<not> hasAutograph s \<and> \<not> isfront s)
   \<and> grades bare_record \<noteq> None
   \<and> (\<exists>s. processGradingResponse bare_record = Inr s
          \<and> isDamaged s \<and> \<not> hasAutograph s \<and> \<not> isfront s)"
proof -
  have h1: "grades scenario_record \<noteq> None" by (simp add: scenario_record_def)
  have h2: "grades bare_record \<noteq> None" by (simp add: bare_record_def)
  have t: "tag_value Damaged bare_record = None" "tag_value Autograph bare_record = None"
    "tag_value Side bare_record = None"
    by (simp_all add: tag_value_def bare_record_def)
  note a = tag_booleans [of scenario_record]
  from a have v: "tag_value Damaged scenario_record = None"
    "tag_value Autograph scenario_record = Some ''No''"
    "tag_value Side scenario_record = Some ''Back''"
    by blast+
  from a h1 obtain s where "processGradingResponse scenario_record = Inr s"
    "isDamaged s = (tag_value Damaged scenario_record \<noteq> Some ''OK'')"
    "hasAutograph s = (tag_value Autograph scenario_record = Some ''Yes'')"
    "isfront s = (tag_value Side scenario_record = Some ''Front'')"
    by blast
  with v have r1: "\<exists>s. processGradingResponse scenario_record = Inr s
          \<and> isDamaged s \<and> \<not> hasAutograph s \<and> \<not> isfront s"
    by auto
  from tag_booleans [of bare_record] h2 obtain b where "processGradingResponse bare_record = Inr b"
    "tag_value Damaged bare_record = None \<longrightarrow> isDamaged b"
    "tag_value Autograph bare_record = None \<longrightarrow> \<not> hasAutograph b"
    "tag_value Side bare_record = None \<longrightarrow> \<not> isfront b"
    by blast
  with t have r2: "\<exists>s. processGradingResponse bare_record = Inr s
          \<and> isDamaged s \<and> \<not> hasAutograph s \<and> \<not> isfront s"
    by auto
  from h1 h2 v r1 r2 show ?thesis by blast
qed

lemma or_num_zero: "or_num x 0 = (case x of None \<Rightarrow> 0 | Some v \<Rightarrow> v)"
  by (simp add: or_num_def split: option.splits)

text \<open>
  C5 (amended). When the record has a \<open>grades\<close> block, each of the five grades of the
  result is the value of the block's field, whatever its size or sign, and 0 when the
  field is absent; \<open>confidence\<close> is the probability of the first detected object named
  "Card", and 0 when there is no such object, in particular when no object is detected.
\<close>

theorem grades_pass_through:
  "grades r = Some gr \<longrightarrow>
    (\<exists>g. processGradingResponse r = Inr g
       \<and> finalGrade g = (case final gr of None \<Rightarrow> 0 | Some v \<Rightarrow> v)
       \<and> cornerGrade g = (case corners gr of None \<Rightarrow> 0 | Some v \<Rightarrow> v)
       \<and> edgeGrade g = (case edges gr of None \<Rightarrow> 0 | Some v \<Rightarrow> v)
       \<and> surfaceGrade g = (case surface gr of None \<Rightarrow> 0 | Some v \<Rightarrow> v)
       \<and> centeringGrade g = (case centering gr of None \<Rightarrow> 0 | Some v \<Rightarrow> v)
       \<and> confidence g = (case card_object r of None \<Rightarrow> 0 | Some ob \<Rightarrow> prob_o ob)
       \<and> (objects r = None \<or> objects r = Some [] \<longrightarrow> confidence g = 0))"
proof
  assume a: "grades r = Some gr"
  have c: "or_num (map_option prob_o (card_object r)) 0 = (case card_object r of None \<Rightarrow> 0 | Some ob \<Rightarrow> prob_o ob)"
    by (simp add: or_num_zero split: option.splits)
  have e: "objects r = None \<or> objects r = Some [] \<longrightarrow> card_object r = None"
    by (auto simp: card_object_def)
  from a obtain g where g: "processGradingResponse r = Inr g"
    by (simp add: processGradingResponse_def Let_def)
  from a g have "finalGrade g = or_num (final gr) 0" "cornerGrade g = or_num (corners gr) 0"
    "edgeGrade g = or_num (edges gr) 0" "surfaceGrade g = or_num (surface gr) 0"
    "centeringGrade g = or_num (centering gr) 0"
    "confidence g = or_num (map_option prob_o (card_object r)) 0"
    by (auto simp: processGradingResponse_def Let_def card_object_def)
  with g c e show "\<exists>g. processGradingResponse r = Inr g
       \<and> finalGrade g = (case final gr of None \<Rightarrow> 0 | Some v \<Rightarrow> v)
       \<and> cornerGrade g = (case corners gr of None \<Rightarrow> 0 | Some v \<Rightarrow> v)
       \<and> edgeGrade g = (case edges gr of None \<Rightarrow> 0 | Some v \<Rightarrow> v)
       \<and> surfaceGrade g = (case surface gr of None \<Rightarrow> 0 | Some v \<Rightarrow> v)
       \<and> centeringGrade g = (case centering gr of None \<Rightarrow> 0 | Some v \<Rightarrow> v)
       \<and> confidence g = (case card_object r of None \<Rightarrow> 0 | Some ob \<Rightarrow> prob_o ob)
       \<and> (objects r = None \<or> objects r = Some [] \<longrightarrow> confidence g = 0)"
    by (auto simp: or_num_zero)
qed

theorem grades_pass_through_witness:
  "(\<exists>g. processGradingResponse out_of_range_record = Inr g
       \<and> finalGrade g = 42 \<and> cornerGrade g = - 3 \<and> edgeGrade g = 0 \<and> surfaceGrade g = 0
       \<and> centeringGrade g = 10 \<and> confidence g = 3/4)
   \<and> (\<exists>g. processGradingResponse bare_record = Inr g \<and> finalGrade g = 0 \<and> confidence g = 0)"
proof -
  let ?gr = "\<lparr>corners = Some (-3), edges = None, surface = Some 0, centering = Some 10,
                     final = Some (42::rat)\<rparr>"
  have h1: "grades out_of_range_record = Some ?gr" by (simp add: out_of_range_record_def)
  have h2: "grades bare_record = Some no_grades" by (simp add: bare_record_def)
  have o: "card_object out_of_range_record = Some \<lparr>name_o = ''Card'', prob_o = 3/4, identification = None\<rparr>"
    by (simp add: card_object_def out_of_range_record_def)
  have b: "objects bare_record = None" by (simp add: bare_record_def)
  from grades_pass_through [of out_of_range_record ?gr] h1 o
  have "\<exists>g. processGradingResponse out_of_range_record = Inr g
       \<and> finalGrade g = 42 \<and> cornerGrade g = - 3 \<and> edgeGrade g = 0 \<and> surfaceGrade g = 0
       \<and> centeringGrade g = 10 \<and> confidence g = 3/4"
    by auto
  moreover from grades_pass_through [of bare_record no_grades] h2 b
  have "\<exists>g. processGradingResponse bare_record = Inr g \<and> finalGrade g = 0 \<and> confidence g = 0"
    by (auto simp: no_grades_def)
  ultimately show ?thesis by blast
qed

text \<open>
  The confidence is not that of the primary detected object. A response whose only
  object is a sleeve detected with probability 0.5 gets confidence 0; a response with
  that sleeve first and a card of probability 0.75 second gets 0.75.
\<close>

theorem grades_pass_through_counterexample:
  "map_option prob_o (primary_object sleeve_only_record) = Some (1/2)
   \<and> processGradingResponse sleeve_only_record \<noteq> Inl (Error ''No grading data found in the response'')
   \<and> confidence (projr (processGradingResponse sleeve_only_record)) = 0
   \<and> map_option prob_o (primary_object out_of_range_record) = Some (1/2)
   \<and> confidence (projr (processGradingResponse out_of_range_record)) = 3/4"
  by (simp add: primary_object_def first_def sleeve_only_record_def out_of_range_record_def
      processGradingResponse_def no_tags_def no_grades_def or_num_def first_name_def or_str_def
      or_opt_def)

section \<open>Loading from storage\<close>

text \<open>
  C6. \<open>loadCollection\<close> and \<open>loadSettings\<close> always resolve. \<open>loadCollection\<close> resolves to
  the stored list when the stored text is read and parsed, and to the empty list when
  nothing is stored, when reading rejects, or when the stored text does not parse.
  \<open>loadSettings\<close> resolves to the stored settings, and in those three cases to
  dark mode off, notifications on, offline mode off.
\<close>

theorem load_never_throws:
  "(\<exists>v. loadCollection getItem parseC = Inr v)
   \<and> (getItem COLLECTION_KEY = Inr (Some j) \<and> parseC j = Inr cs \<longrightarrow> loadCollection getItem parseC = Inr cs)
   \<and> (getItem COLLECTION_KEY = Inr None \<longrightarrow> loadCollection getItem parseC = Inr [])
   \<and> (getItem COLLECTION_KEY = Inl e \<longrightarrow> loadCollection getItem parseC = Inr [])
   \<and> (getItem COLLECTION_KEY = Inr (Some j) \<and> parseC j = Inl e \<longrightarrow> loadCollection getItem parseC = Inr [])
   \<and> (\<exists>v. loadSettings getItem parseS = Inr v)
   \<and> (getItem SETTINGS_KEY = Inr (Some j) \<and> parseS j = Inr st \<longrightarrow> loadSettings getItem parseS = Inr st)
   \<and> (getItem SETTINGS_KEY = Inr None \<longrightarrow>
        loadSettings getItem parseS = Inr \<lparr>darkMode = False, notifications = True, offlineMode = False\<rparr>)
   \<and> (getItem SETTINGS_KEY = Inl e \<longrightarrow>
        loadSettings getItem parseS = Inr \<lparr>darkMode = False, notifications = True, offlineMode = False\<rparr>)
   \<and> (getItem SETTINGS_KEY = Inr (Some j) \<and> parseS j = Inl e \<longrightarrow>
        loadSettings getItem parseS = Inr \<lparr>darkMode = False, notifications = True, offlineMode = False\<rparr>)"
proof -
  have c: "\<exists>v. loadCollection getItem parseC = Inr v"
    by (simp add: loadCollection_def split: sum.splits option.splits)
  have s: "\<exists>v. loadSettings getItem parseS = Inr v"
    by (simp add: loadSettings_def split: sum.splits option.splits)
  show ?thesis using c s
    by (simp add: loadCollection_def loadSettings_def)
qed

theorem load_never_throws_witness:
  "loadCollection sample_storage sample_parse_cards = Inr (cards sample_state)
   \<and> loadCollection empty_storage sample_parse_cards = Inr []
   \<and> loadCollection failing_storage sample_parse_cards = Inr []
   \<and> loadCollection corrupt_storage sample_parse_cards = Inr []
   \<and> loadSettings sample_storage sample_parse_settings = Inr sample_settings
   \<and> loadSettings empty_storage sample_parse_settings
        = Inr \<lparr>darkMode = False, notifications = True, offlineMode = False\<rparr>
   \<and> loadSettings failing_storage sample_parse_settings
        = Inr \<lparr>darkMode = False, notifications = True, offlineMode = False\<rparr>
   \<and> loadSettings corrupt_storage sample_parse_settings
        = Inr \<lparr>darkMode = False, notifications = True, offlineMode = False\<rparr>"
proof -
  let ?d = "\<lparr>darkMode = False, notifications = True, offlineMode = False\<rparr>"
  have a1: "sample_storage COLLECTION_KEY = Inr (Some ''[stored cards]'')
            \<and> sample_parse_cards ''[stored cards]'' = Inr (cards sample_state)"
    by (simp add: sample_storage_def sample_parse_cards_def)
  have a2: "sample_storage SETTINGS_KEY = Inr (Some ''{stored settings}'')
            \<and> sample_parse_settings ''{stored settings}'' = Inr sample_settings"
    by (simp add: sample_storage_def sample_parse_settings_def SETTINGS_KEY_def COLLECTION_KEY_def)
  have b1: "empty_storage COLLECTION_KEY = Inr None" and b2: "empty_storage SETTINGS_KEY = Inr None"
    by (simp_all add: empty_storage_def)
  have c1: "failing_storage COLLECTION_KEY = Inl (Error ''storage unavailable'')"
    and c2: "failing_storage SETTINGS_KEY = Inl (Error ''storage unavailable'')"
    by (simp_all add: failing_storage_def)
  have d1: "corrupt_storage COLLECTION_KEY = Inr (Some ''{'') \<and> sample_parse_cards ''{'' = Inl (Error ''SyntaxError'')"
    and d2: "corrupt_storage SETTINGS_KEY = Inr (Some ''{'') \<and> sample_parse_settings ''{'' = Inl (Error ''SyntaxError'')"
    by (simp_all add: corrupt_storage_def sample_parse_cards_def sample_parse_settings_def)
  from load_never_throws [of sample_storage sample_parse_cards "''[stored cards]''" "cards sample_state"] a1
  have r1: "loadCollection sample_storage sample_parse_cards = Inr (cards sample_state)" by blast
  from load_never_throws [where getItem = sample_storage and parseS = sample_parse_settings
      and j = "''{stored settings}''" and st = sample_settings] a2
  have r2: "loadSettings sample_storage sample_parse_settings = Inr sample_settings" by blast
  from load_never_throws [where getItem = empty_storage and parseC = sample_parse_cards
      and parseS = sample_parse_settings] b1 b2
  have r3: "loadCollection empty_storage sample_parse_cards = Inr []"
    and r4: "loadSettings empty_storage sample_parse_settings = Inr ?d" by blast+
  from load_never_throws [where getItem = failing_storage and parseC = sample_parse_cards
      and parseS = sample_parse_settings and e = "Error ''storage unavailable''"] c1 c2
  have r5: "loadCollection failing_storage sample_parse_cards = Inr []"
    and r6: "loadSettings failing_storage sample_parse_settings = Inr ?d" by blast+
  from load_never_throws [where getItem = corrupt_storage and parseC = sample_parse_cards
      and parseS = sample_parse_settings and e = "Error ''SyntaxError''" and j = "''{''"] d1 d2
  have r7: "loadCollection corrupt_storage sample_parse_cards = Inr []"
    and r8: "loadSettings corrupt_storage sample_parse_settings = Inr ?d" by blast+
  from r1 r2 r3 r4 r5 r6 r7 r8 show ?thesis by blast
qed

section \<open>Recognising a card\<close>

lemma gradeCard_request_fails:
  "request uri = Inl e' \<Longrightarrow> \<exists>e. gradeCard request uri = Inl e"
  by (simp add: gradeCard_def gradeCard_try_def)

lemma gradeCard_blank:
  "uri = [] \<or> trim uri = [] \<Longrightarrow> \<exists>e. gradeCard request uri = Inl e"
  by (auto simp: gradeCard_def gradeCard_try_def)

lemma gradeCard_no_records:
  "request uri = Inr None \<or> (request uri = Inr (Some d) \<and> (records d = None \<or> records d = Some []))
     \<Longrightarrow> \<exists>e. gradeCard request uri = Inl e"
  by (auto simp: gradeCard_def gradeCard_try_def)

lemma gradeCard_normalize_fails:
  "request uri = Inr (Some d) \<Longrightarrow> records d = Some (r # rs) \<Longrightarrow> processGradingResponse r = Inl e'
     \<Longrightarrow> \<exists>e. gradeCard request uri = Inl e"
  by (simp add: gradeCard_def gradeCard_try_def)

lemma recognizeCard_Inl:
  "recognizeCard nts now fy uri (Inl e) =
     Inr \<lparr>card_s =
            \<lparr>id' = ''mock_'' @ show_nat now,
             name = ''Unrecognized Card'',
             set' = ''Base Set'',
             rarity = ''Common'',
             condition = ''Near Mint'',
             price = PNum 5,
             imageUrl = uri,
             description = ''Card could not be identified. Please try again or add details manually.'',
             artist = ''Atsuko Nishida'',
             year = 1996,
             type' = ''Pok'' @ [CHR 0xC3, CHR 0xA9] @ ''mon'',
             types = Some [''Electric''],
             hp = Some ''60'',
             apiData = None\<rparr>,
          confidence_s = 1/10,
          gradingResult = None\<rparr>"
  by (simp add: recognizeCard_def createMockCard_def)

text \<open>
  C1 (amended). \<open>recognizeCard\<close> always resolves. When \<open>gradeCard\<close> rejects (the
  request to the grading service fails, the image reference is blank, the response
  has no record, or the record has no grading data) it resolves with the fallback
  result: confidence 0.1, no grading result, and the mock card renamed "Unrecognized
  Card", with the image reference as its image, the fixed description, and the id
  "mock_" followed by the clock's millisecond count at the time of the call; the other
  fields are those of the mock card.
\<close>

theorem recognize_fallback:
  "(\<exists>r. recognize nts now fy request uri = Inr r)
   \<and> (gradeCard request uri = Inl e \<longrightarrow>
        recognize nts now fy request uri =
          Inr \<lparr>card_s =
                 \<lparr>id' = ''mock_'' @ show_nat now,
                  name = ''Unrecognized Card'',
                  set' = ''Base Set'',
                  rarity = ''Common'',
                  condition = ''Near Mint'',
                  price = PNum 5,
                  imageUrl = uri,
                  description = ''Card could not be identified. Please try again or add details manually.'',
                  artist = ''Atsuko Nishida'',
                  year = 1996,
                  type' = ''Pok'' @ [CHR 0xC3, CHR 0xA9] @ ''mon'',
                  types = Some [''Electric''],
                  hp = Some ''60'',
                  apiData = None\<rparr>,
               confidence_s = 1/10,
               gradingResult = None\<rparr>)
   \<and> (request uri = Inl e' \<longrightarrow> (\<exists>x. gradeCard request uri = Inl x))
   \<and> (uri = [] \<or> trim uri = [] \<longrightarrow> (\<exists>x. gradeCard request uri = Inl x))
   \<and> (request uri = Inr None \<or> (request uri = Inr (Some d) \<and> (records d = None \<or> records d = Some []))
        \<longrightarrow> (\<exists>x. gradeCard request uri = Inl x))
   \<and> (request uri = Inr (Some d) \<and> records d = Some (r # rs) \<and> grades r = None
        \<longrightarrow> (\<exists>x. gradeCard request uri = Inl x))"
proof (intro conjI impI)
  show "\<exists>r. recognize nts now fy request uri = Inr r"
    by (simp add: recognize_def recognizeCard_def split: sum.splits)
next
  assume "gradeCard request uri = Inl e"
  then show "recognize nts now fy request uri =
          Inr \<lparr>card_s =
                 \<lparr>id' = ''mock_'' @ show_nat now,
                  name = ''Unrecognized Card'',
                  set' = ''Base Set'',
                  rarity = ''Common'',
                  condition = ''Near Mint'',
                  price = PNum 5,
                  imageUrl = uri,
                  description = ''Card could not be identified. Please try again or add details manually.'',
                  artist = ''Atsuko Nishida'',
                  year = 1996,
                  type' = ''Pok'' @ [CHR 0xC3, CHR 0xA9] @ ''mon'',
                  types = Some [''Electric''],
                  hp = Some ''60'',
                  apiData = None\<rparr>,
               confidence_s = 1/10,
               gradingResult = None\<rparr>"
    by (simp add: recognize_def recognizeCard_Inl)
next
  assume "request uri = Inl e'"
  then show "\<exists>x. gradeCard request uri = Inl x" by (rule gradeCard_request_fails)
next
  assume "uri = [] \<or> trim uri = []"
  then show "\<exists>x. gradeCard request uri = Inl x" by (rule gradeCard_blank)
next
  assume "request uri = Inr None \<or> (request uri = Inr (Some d) \<and> (records d = None \<or> records d = Some []))"
  then show "\<exists>x. gradeCard request uri = Inl x" by (rule gradeCard_no_records)
next
  assume a: "request uri = Inr (Some d) \<and> records d = Some (r # rs) \<and> grades r = None"
  then have "processGradingResponse r = Inl (Error ''No grading data found in the response'')"
    by (simp add: processGradingResponse_def)
  with a show "\<exists>x. gradeCard request uri = Inl x"
    using gradeCard_normalize_fails [of request uri d r rs] by blast
qed

lemma trim_sample_uris:
  "trim ''file:///card.jpg'' = ''file:///card.jpg''"
  "trim ''https://example.com/card.jpg'' = ''https://example.com/card.jpg''"
  by (simp_all add: trim_def skip_seqs.simps ws_seqs_def)

lemma show_nat_41: "show_nat 41 = ''41''"
  by (simp add: show_nat.simps digit_char_def)

lemma show_nat_42: "show_nat 42 = ''42''"
  by (simp add: show_nat.simps digit_char_def)

theorem recognize_fallback_witness:
  "gradeCard failing_request ''file:///card.jpg''
      = Inl (Error ''Network error. Please check your internet connection.'')
   \<and> gradeCard no_grades_request ''https://example.com/card.jpg''
      = Inl (Error ''Card grading failed: No grading data found in the response'')
   \<and> name (card_s (projr (recognize sample_numToString 41 2026 failing_request ''file:///card.jpg'')))
      = ''Unrecognized Card''
   \<and> imageUrl (card_s (projr (recognize sample_numToString 41 2026 failing_request ''file:///card.jpg'')))
      = ''file:///card.jpg''
   \<and> id' (card_s (projr (recognize sample_numToString 41 2026 failing_request ''file:///card.jpg'')))
      = ''mock_41''
   \<and> confidence_s (projr (recognize sample_numToString 41 2026 failing_request ''file:///card.jpg'')) = 1/10
   \<and> gradingResult (projr (recognize sample_numToString 41 2026 failing_request ''file:///card.jpg'')) = None
   \<and> name (card_s (projr (recognize sample_numToString 41 2026 no_grades_request ''https://example.com/card.jpg'')))
      = ''Unrecognized Card''
   \<and> gradingResult (projr (recognize sample_numToString 41 2026 no_grades_request ''https://example.com/card.jpg'')) = None"
proof -
  have t: "trim ''file:///card.jpg'' \<noteq> []" "trim ''https://example.com/card.jpg'' \<noteq> []"
    by (simp_all add: trim_sample_uris)
  have g1: "gradeCard failing_request ''file:///card.jpg''
      = Inl (Error ''Network error. Please check your internet connection.'')"
    using t by (simp add: gradeCard_def gradeCard_try_def failing_request_def gradeCard_catch_def)
  have g2: "gradeCard no_grades_request ''https://example.com/card.jpg''
      = Inl (Error ''Card grading failed: No grading data found in the response'')"
    using t by (simp add: gradeCard_def gradeCard_try_def no_grades_request_def gradeCard_catch_def
        processGradingResponse_def bare_record_def)
  note r1 = recognize_fallback [where request = failing_request and uri = "''file:///card.jpg''"
      and nts = sample_numToString and now = 41 and fy = 2026
      and e = "Error ''Network error. Please check your internet connection.''"]
  note r2 = recognize_fallback [where request = no_grades_request and uri = "''https://example.com/card.jpg''"
      and nts = sample_numToString and now = 41 and fy = 2026
      and e = "Error ''Card grading failed: No grading data found in the response''"]
  from r1 g1 have "recognize sample_numToString 41 2026 failing_request ''file:///card.jpg'' =
          Inr \<lparr>card_s =
                 \<lparr>id' = ''mock_'' @ show_nat 41,
                  name = ''Unrecognized Card'',
                  set' = ''Base Set'',
                  rarity = ''Common'',
                  condition = ''Near Mint'',
                  price = PNum 5,
                  imageUrl = ''file:///card.jpg'',
                  description = ''Card could not be identified. Please try again or add details manually.'',
                  artist = ''Atsuko Nishida'',
                  year = 1996,
                  type' = ''Pok'' @ [CHR 0xC3, CHR 0xA9] @ ''mon'',
                  types = Some [''Electric''],
                  hp = Some ''60'',
                  apiData = None\<rparr>,
               confidence_s = 1/10,
               gradingResult = None\<rparr>" by blast
  moreover from r2 g2 have "recognize sample_numToString 41 2026 no_grades_request ''https://example.com/card.jpg'' =
          Inr \<lparr>card_s =
                 \<lparr>id' = ''mock_'' @ show_nat 41,
                  name = ''Unrecognized Card'',
                  set' = ''Base Set'',
                  rarity = ''Common'',
                  condition = ''Near Mint'',
                  price = PNum 5,
                  imageUrl = ''https://example.com/card.jpg'',
                  description = ''Card could not be identified. Please try again or add details manually.'',
                  artist = ''Atsuko Nishida'',
                  year = 1996,
                  type' = ''Pok'' @ [CHR 0xC3, CHR 0xA9] @ ''mon'',
                  types = Some [''Electric''],
                  hp = Some ''60'',
                  apiData = None\<rparr>,
               confidence_s = 1/10,
               gradingResult = None\<rparr>" by blast
  ultimately show ?thesis using g1 g2 by (simp add: show_nat_41)
qed

text \<open>
  The fallback card is not the same at every call: its id carries the clock, so two
  failed recognitions of one image at different times give cards with different ids.
\<close>

theorem recognize_fallback_counterexample:
  "id' (card_s (projr (recognize sample_numToString 41 2026 failing_request ''file:///card.jpg''))) = ''mock_41''
   \<and> id' (card_s (projr (recognize sample_numToString 42 2026 failing_request ''file:///card.jpg''))) = ''mock_42''
   \<and> recognize sample_numToString 41 2026 failing_request ''file:///card.jpg''
       \<noteq> recognize sample_numToString 42 2026 failing_request ''file:///card.jpg''"
proof -
  have t: "trim ''file:///card.jpg'' \<noteq> []"
    by (simp add: trim_sample_uris)
  have g: "gradeCard failing_request ''file:///card.jpg''
      = Inl (Error ''Network error. Please check your internet connection.'')"
    using t by (simp add: gradeCard_def gradeCard_try_def failing_request_def gradeCard_catch_def)
  show ?thesis
    by (simp add: recognize_def g recognizeCard_Inl show_nat_41 show_nat_42)
qed

section \<open>Grade to condition\<close>

lemma mapGradeToCondition_eq: "mapGradeToCondition grade = mapConditionFromGrade grade"
  by (simp add: mapGradeToCondition_def mapConditionFromGrade_def)

lemma band_mono: "g \<le> h \<Longrightarrow> band g \<le> band h"
  by (simp add: band_def)

lemma rank_band: "g \<noteq> 0 \<Longrightarrow> condition_rank (mapConditionFromGrade (Some g)) = band g"
  by (simp add: mapConditionFromGrade_def condition_rank_def band_def)

lemma mapConditionFromGrade_bands:
  "g \<noteq> 0 \<Longrightarrow>
     (10 \<le> g \<longrightarrow> mapConditionFromGrade (Some g) = ''Gem Mint'')
   \<and> (9 \<le> g \<and> g < 10 \<longrightarrow> mapConditionFromGrade (Some g) = ''Mint'')
   \<and> (8 \<le> g \<and> g < 9 \<longrightarrow> mapConditionFromGrade (Some g) = ''Near Mint/Mint'')
   \<and> (7 \<le> g \<and> g < 8 \<longrightarrow> mapConditionFromGrade (Some g) = ''Near Mint'')
   \<and> (6 \<le> g \<and> g < 7 \<longrightarrow> mapConditionFromGrade (Some g) = ''Excellent'')
   \<and> (5 \<le> g \<and> g < 6 \<longrightarrow> mapConditionFromGrade (Some g) = ''Very Good'')
   \<and> (4 \<le> g \<and> g < 5 \<longrightarrow> mapConditionFromGrade (Some g) = ''Good'')
   \<and> (3 \<le> g \<and> g < 4 \<longrightarrow> mapConditionFromGrade (Some g) = ''Fair'')
   \<and> (2 \<le> g \<and> g < 3 \<longrightarrow> mapConditionFromGrade (Some g) = ''Poor'')
   \<and> (g < 2 \<longrightarrow> mapConditionFromGrade (Some g) = ''Damaged'')"
  by (simp add: mapConditionFromGrade_def)

lemma interpretGrade_low:
  "(1 \<le> g \<and> g < 2 \<longrightarrow> interpretGrade (Some g) = ''Authentic (Damaged)'')
   \<and> (g < 1 \<longrightarrow> interpretGrade (Some g) = ''Damaged'')"
  by (auto simp: interpretGrade_def Let_def max_def min_def)

text \<open>
  C9 (amended). The condition of a card is read off its final grade by
  \<open>mapConditionFromGrade\<close>, which is the same function as \<open>CardModel.mapGradeToCondition\<close>.
  An absent or zero grade gives "Unknown". On every other grade it is a threshold table
  read highest first, each threshold included in its band: 10 and above "Gem Mint", 9
  "Mint", 8 "Near Mint/Mint", 7 "Near Mint", 6 "Excellent", 5 "Very Good", 4 "Good",
  3 "Fair", 2 "Poor", and "Damaged" below 2; a higher grade never gets a lower label.
  "Authentic (Damaged)" is a label of the other table, \<open>interpretGrade\<close>, which gives it
  to the grades from 1 up to 2, and "Damaged" to the grades below 1.
\<close>

theorem condition_bands:
  "mapGradeToCondition grade = mapConditionFromGrade grade
   \<and> mapConditionFromGrade None = ''Unknown''
   \<and> mapConditionFromGrade (Some 0) = ''Unknown''
   \<and> (g \<noteq> 0 \<longrightarrow>
         (10 \<le> g \<longrightarrow> mapConditionFromGrade (Some g) = ''Gem Mint'')
       \<and> (9 \<le> g \<and> g < 10 \<longrightarrow> mapConditionFromGrade (Some g) = ''Mint'')
       \<and> (8 \<le> g \<and> g < 9 \<longrightarrow> mapConditionFromGrade (Some g) = ''Near Mint/Mint'')
       \<and> (7 \<le> g \<and> g < 8 \<longrightarrow> mapConditionFromGrade (Some g) = ''Near Mint'')
       \<and> (6 \<le> g \<and> g < 7 \<longrightarrow> mapConditionFromGrade (Some g) = ''Excellent'')
       \<and> (5 \<le> g \<and> g < 6 \<longrightarrow> mapConditionFromGrade (Some g) = ''Very Good'')
       \<and> (4 \<le> g \<and> g < 5 \<longrightarrow> mapConditionFromGrade (Some g) = ''Good'')
       \<and> (3 \<le> g \<and> g < 4 \<longrightarrow> mapConditionFromGrade (Some g) = ''Fair'')
       \<and> (2 \<le> g \<and> g < 3 \<longrightarrow> mapConditionFromGrade (Some g) = ''Poor'')
       \<and> (g < 2 \<longrightarrow> mapConditionFromGrade (Some g) = ''Damaged''))
   \<and> (g \<noteq> 0 \<and> h \<noteq> 0 \<and> g \<le> h \<longrightarrow>
         condition_rank (mapConditionFromGrade (Some g)) \<le> condition_rank (mapConditionFromGrade (Some h)))
   \<and> (1 \<le> g \<and> g < 2 \<longrightarrow> interpretGrade (Some g) = ''Authentic (Damaged)'')
   \<and> (g < 1 \<longrightarrow> interpretGrade (Some g) = ''Damaged'')"
proof (intro conjI)
  show "mapGradeToCondition grade = mapConditionFromGrade grade"
    by (rule mapGradeToCondition_eq)
  show "mapConditionFromGrade None = ''Unknown''" "mapConditionFromGrade (Some 0) = ''Unknown''"
    by (simp_all add: mapConditionFromGrade_def)
  show "g \<noteq> 0 \<longrightarrow>
         (10 \<le> g \<longrightarrow> mapConditionFromGrade (Some g) = ''Gem Mint'')
       \<and> (9 \<le> g \<and> g < 10 \<longrightarrow> mapConditionFromGrade (Some g) = ''Mint'')
       \<and> (8 \<le> g \<and> g < 9 \<longrightarrow> mapConditionFromGrade (Some g) = ''Near Mint/Mint'')
       \<and> (7 \<le> g \<and> g < 8 \<longrightarrow> mapConditionFromGrade (Some g) = ''Near Mint'')
       \<and> (6 \<le> g \<and> g < 7 \<longrightarrow> mapConditionFromGrade (Some g) = ''Excellent'')
       \<and> (5 \<le> g \<and> g < 6 \<longrightarrow> mapConditionFromGrade (Some g) = ''Very Good'')
       \<and> (4 \<le> g \<and> g < 5 \<longrightarrow> mapConditionFromGrade (Some g) = ''Good'')
       \<and> (3 \<le> g \<and> g < 4 \<longrightarrow> mapConditionFromGrade (Some g) = ''Fair'')
       \<and> (2 \<le> g \<and> g < 3 \<longrightarrow> mapConditionFromGrade (Some g) = ''Poor'')
       \<and> (g < 2 \<longrightarrow> mapConditionFromGrade (Some g) = ''Damaged'')"
    using mapConditionFromGrade_bands [of g] by blast
  show "g \<noteq> 0 \<and> h \<noteq> 0 \<and> g \<le> h \<longrightarrow>
         condition_rank (mapConditionFromGrade (Some g)) \<le> condition_rank (mapConditionFromGrade (Some h))"
    using band_mono [of g h] by (simp add: rank_band)
  show "1 \<le> g \<and> g < 2 \<longrightarrow> interpretGrade (Some g) = ''Authentic (Damaged)''"
    using interpretGrade_low [of g] by blast
  show "g < 1 \<longrightarrow> interpretGrade (Some g) = ''Damaged''"
    using interpretGrade_low [of g] by blast
qed

theorem condition_bands_witness:
  "mapConditionFromGrade (Some 10) = ''Gem Mint''
   \<and> mapConditionFromGrade (Some (19/2)) = ''Mint''
   \<and> mapConditionFromGrade (Some (17/2)) = ''Near Mint/Mint''
   \<and> mapConditionFromGrade (Some 7) = ''Near Mint''
   \<and> mapConditionFromGrade (Some (13/2)) = ''Excellent''
   \<and> mapConditionFromGrade (Some 5) = ''Very Good''
   \<and> mapConditionFromGrade (Some (9/2)) = ''Good''
   \<and> mapConditionFromGrade (Some 3) = ''Fair''
   \<and> mapConditionFromGrade (Some (5/2)) = ''Poor''
   \<and> mapConditionFromGrade (Some (3/2)) = ''Damaged''
   \<and> mapConditionFromGrade (Some (- 1)) = ''Damaged''
   \<and> condition_rank (mapConditionFromGrade (Some (17/2))) \<le> condition_rank (mapConditionFromGrade (Some (19/2)))
   \<and> interpretGrade (Some (3/2)) = ''Authentic (Damaged)''
   \<and> interpretGrade (Some (1/2)) = ''Damaged''"
proof -
  have "mapConditionFromGrade (Some 10) = ''Gem Mint''"
    using condition_bands [where g = 10] by simp
  moreover have "mapConditionFromGrade (Some (19/2)) = ''Mint''"
    using condition_bands [where g = "19/2"] by simp
  moreover have "mapConditionFromGrade (Some (17/2)) = ''Near Mint/Mint''"
    using condition_bands [where g = "17/2"] by simp
  moreover have "mapConditionFromGrade (Some 7) = ''Near Mint''"
    using condition_bands [where g = 7] by simp
  moreover have "mapConditionFromGrade (Some (13/2)) = ''Excellent''"
    using condition_bands [where g = "13/2"] by simp
  moreover have "mapConditionFromGrade (Some 5) = ''Very Good''"
    using condition_bands [where g = 5] by simp
  moreover have "mapConditionFromGrade (Some (9/2)) = ''Good''"
    using condition_bands [where g = "9/2"] by simp
  moreover have "mapConditionFromGrade (Some 3) = ''Fair''"
    using condition_bands [where g = 3] by simp
  moreover have "mapConditionFromGrade (Some (5/2)) = ''Poor''"
    using condition_bands [where g = "5/2"] by simp
  moreover have "mapConditionFromGrade (Some (3/2)) = ''Damaged''"
    and "interpretGrade (Some (3/2)) = ''Authentic (Damaged)''"
    using condition_bands [where g = "3/2"] by simp_all
  moreover have "mapConditionFromGrade (Some (- 1)) = ''Damaged''"
    using condition_bands [where g = "- 1"] by simp
  moreover have "condition_rank (mapConditionFromGrade (Some (17/2)))
       \<le> condition_rank (mapConditionFromGrade (Some (19/2)))"
  proof -
    have "(17/2::rat) \<noteq> 0 \<and> (19/2::rat) \<noteq> 0 \<and> (17/2::rat) \<le> 19/2" by simp
    with condition_bands [where g = "17/2" and h = "19/2" and grade = None] show ?thesis by blast
  qed
  moreover have "interpretGrade (Some (1/2)) = ''Damaged''"
    using condition_bands [where g = "1/2"] by simp
  ultimately show ?thesis by blast
qed

text \<open>
  The table as the claim gives it fails on each function: a grade of 10 is "Gem Mint",
  not "Mint"; a grade of 0 is "Unknown" for \<open>mapConditionFromGrade\<close>, which also does
  not tell the grades from 1 up to 2 from those below 1; and in \<open>interpretGrade\<close>, where
  those two bands differ, a grade of 7 is "Excellent", not "Near Mint".
\<close>

theorem condition_bands_counterexample:
  "mapConditionFromGrade (Some 10) = ''Gem Mint''
   \<and> mapGradeToCondition (Some 10) = ''Gem Mint''
   \<and> interpretGrade (Some 10) = ''Gem Mint''
   \<and> mapConditionFromGrade (Some 0) = ''Unknown''
   \<and> mapConditionFromGrade (Some (3/2)) = ''Damaged''
   \<and> mapConditionFromGrade (Some (1/2)) = ''Damaged''
   \<and> interpretGrade (Some 7) = ''Excellent''"
  by (simp add: mapConditionFromGrade_def mapGradeToCondition_def interpretGrade_def)

section \<open>The value of a collection\<close>

lemma floor_rat_numeral: "\<lfloor>(numeral a / numeral b) :: rat\<rfloor> = numeral a div numeral b"
  using floor_divide_of_int_eq [of "numeral a" "numeral b", where ?'a = rat] by simp

lemma ceiling_rat_numeral: "\<lceil>(numeral a / numeral b) :: rat\<rceil> = - (- numeral a div numeral b)"
  unfolding ceiling_def
  using floor_divide_of_int_eq [of "- numeral a" "numeral b", where ?'a = rat] by simp

lemmas round_double_eval = round_double_def ilog2_def bit_length.simps pow2_def round_half_even_def
  Let_def floor_rat_numeral ceiling_rat_numeral

lemma round_double_0: "round_double 0 = Fin 0"
  by (simp add: round_double_def)

lemma round_double_whole:
  "round_double 1 = Fin 1" "round_double 2 = Fin 2" "round_double 3 = Fin 3"
  "round_double 12 = Fin 12" "round_double 15 = Fin 15" "round_double 51 = Fin 51"
  "round_double 63 = Fin 63"
  by (simp_all add: round_double_eval)

lemma round_double_dyadic:
  "round_double (51/2) = Fin (51/2)" "round_double (15/2) = Fin (15/2)"
  "round_double (1/8) = Fin (1/8)"
  by (simp_all add: round_double_eval)

text \<open>The doubles nearest to 1.005, 0.001 and 0.005, and the sum of 1 and the last.\<close>

lemma round_double_1_005:
  "round_double (201/200) = Fin (1131529406376837/1125899906842624)"
  "round_double (1131529406376837/1125899906842624) = Fin (1131529406376837/1125899906842624)"
  by (simp_all add: round_double_eval)

lemma round_double_0_001:
  "round_double (1/1000) = Fin (1152921504606847/1152921504606846976)"
  "round_double (1152921504606847/1152921504606846976) = Fin (1152921504606847/1152921504606846976)"
  by (simp_all add: round_double_eval)

lemma round_double_0_005:
  "round_double (5/1000) = Fin (5764607523034235/1152921504606846976)"
  "round_double (5764607523034235/1152921504606846976) = Fin (5764607523034235/1152921504606846976)"
  by (simp_all add: round_double_eval)

lemma one_plus_0_005:
  "round_double (1 + 5764607523034235/1152921504606846976) = Fin (1131529406376837/1125899906842624)"
  by (simp add: round_double_eval)

lemma round_double_overflow: "round_double (10 ^ 400) = PInf"
  by (simp add: round_double_def)

lemmas parseFloat_eval = parseFloat_def parse_sign_def skip_seqs.simps ws_seqs_def is_digit_def
  digit_val_def digits_val_def parse_exponent_def scale10_def

lemma parseFloat_25_50: "parseFloat ''25.50'' = Fin (51/2)"
  by (simp add: parseFloat_eval round_double_dyadic)

lemma parseFloat_1_005: "parseFloat ''1.005'' = Fin (1131529406376837/1125899906842624)"
  by (simp add: parseFloat_eval round_double_1_005)

lemma parseFloat_nbsp: "parseFloat ([CHR 0xC2, CHR 0xA0] @ ''7.5'') = Fin (15/2)"
  by (simp add: parseFloat_eval round_double_dyadic)

lemma parseFloat_1e400: "parseFloat ''1e400'' = PInf"
  by (simp add: parseFloat_eval round_double_overflow [simplified])

lemma parseFloat_n_a: "parseFloat ''n/a'' = NaN"
  by (simp add: parseFloat_def parse_sign_def skip_seqs.simps ws_seqs_def is_digit_def)

lemma parseFloat_0_00: "parseFloat ''0.00'' = Fin 0"
  by (simp add: parseFloat_eval round_double_0)

lemma show_nat_digits:
  "show_nat 0 = ''0''" "show_nat 13 = ''13''" "show_nat 100 = ''100''" "show_nat 1200 = ''1200''"
  "show_nat 1500 = ''1500''" "show_nat 6300 = ''6300''"
  by (simp_all add: show_nat.simps digit_char_def)

lemma toFixed_values:
  "toFixed nts 2 (Fin 0) = ''0.00''"
  "toFixed nts 2 (Fin 12) = ''12.00''"
  "toFixed nts 2 (Fin 15) = ''15.00''"
  "toFixed nts 2 (Fin 63) = ''63.00''"
  "toFixed nts 2 (Fin (1/8)) = ''0.13''"
  "toFixed nts 2 (Fin (1131529406376837/1125899906842624)) = ''1.00''"
  "toFixed nts 2 (Fin (1152921504606847/1152921504606846976)) = ''0.00''"
  "toFixed nts 2 PInf = ''Infinity''"
  by (simp_all add: toFixed_def Let_def floor_rat_numeral show_nat_digits)

lemma or_zero_price: "or_zero (parseFloat (remove1 CHR ''$'' s)) = price_number (PStr s)"
  by (simp add: or_zero_def price_number_def split: jsnum.splits)

lemma entry_value_inline:
  "jmul (case price c of
           PStr cardPrice \<Rightarrow> or_zero (parseFloat (remove1 CHR ''$'' cardPrice))
         | PNum cardPrice \<Rightarrow> round_double cardPrice)
        (round_double (of_int (quantity c))) = entry_value c"
  by (simp add: entry_value_def or_zero_price price_number_def split: price_val.splits)

lemma getTotalValue_dsum:
  "getTotalValue nts cs = ''$'' @ toFixed nts 2 (dsum (map entry_value cs))"
proof -
  have "foldl (\<lambda>sum c. jadd sum (entry_value c)) (Fin 0) cs = dsum (map entry_value cs)"
    by (simp add: dsum_def foldl_map)
  then show ?thesis
    unfolding getTotalValue_def Let_def entry_value_inline by simp
qed

lemma price_number_PNum: "price_number (PNum x) = round_double x"
  by (simp add: price_number_def)

lemma price_numbers:
  "price_number (PStr ''$25.50'') = Fin (51/2)"
  "price_number (PStr ''n/a'') = Fin 0"
  "price_number (PStr ''$1.005'') = Fin (1131529406376837/1125899906842624)"
  "price_number (PStr ([CHR 0xC2, CHR 0xA0] @ ''7.5'')) = Fin (15/2)"
  "price_number (PStr ''1e400'') = PInf"
  by (simp_all add: price_number_def parseFloat_25_50 parseFloat_n_a parseFloat_1_005
      parseFloat_1e400 parseFloat_nbsp [simplified])

lemmas collection_eval = getTotalValue_dsum dsum_def entry_value_def priced_card_def spread_card_def
  sample_card_def Card.extend_def price_numbers [simplified] price_number_PNum round_double_0
  round_double_whole round_double_dyadic toFixed_values

lemma legacy_total: "getTotalValue nts legacy_collection = ''$63.00''"
  by (simp add: collection_eval legacy_collection_def)

lemma unparsable_total: "getTotalValue nts unparsable_collection = ''$12.00''"
  by (simp add: collection_eval unparsable_collection_def)

lemma sub_cent_sum:
  "dsum (map entry_value sub_cent_collection) = Fin (1152921504606847/1152921504606846976)"
  by (simp add: dsum_def entry_value_def priced_card_def spread_card_def sample_card_def
      Card.extend_def sub_cent_collection_def price_number_def round_double_whole round_double_0_001)

lemma sub_cent_total: "getTotalValue nts sub_cent_collection = ''$0.00''"
  by (simp add: getTotalValue_dsum sub_cent_sum toFixed_values)

lemma half_cent_text_total: "getTotalValue nts half_cent_text_collection = ''$1.00''"
  by (simp add: collection_eval half_cent_text_collection_def round_double_1_005)

lemma half_cent_sum_total: "getTotalValue nts half_cent_sum_collection = ''$1.00''"
  by (simp add: collection_eval half_cent_sum_collection_def round_double_0_005 [simplified]
      one_plus_0_005 [simplified])

lemma eighth_total: "getTotalValue nts eighth_collection = ''$0.13''"
  by (simp add: collection_eval eighth_collection_def)

lemma nbsp_total: "getTotalValue nts nbsp_collection = ''$15.00''"
  by (simp add: collection_eval nbsp_collection_def)

lemma overflow_total: "getTotalValue nts overflow_collection = ''$Infinity''"
  by (simp add: collection_eval overflow_collection_def)

lemma bit_length_bounds:
  "0 < n \<Longrightarrow> 2 ^ (bit_length n - 1) \<le> n \<and> n < 2 ^ bit_length n"
proof (induction n rule: bit_length.induct)
  case (1 n)
  show ?case
  proof (cases "n div 2 = 0")
    case True
    with "1.prems" have "n = 1" by (simp add: div_eq_0_iff)
    then show ?thesis by (simp add: bit_length.simps)
  next
    case False
    with "1.prems" "1.IH" have ih: "2 ^ (bit_length (n div 2) - 1) \<le> n div 2"
      "n div 2 < 2 ^ bit_length (n div 2)" by auto
    from False have pos: "0 < bit_length (n div 2)"
      by (simp add: bit_length.simps [of "n div 2"])
    have b: "bit_length n = Suc (bit_length (n div 2))"
      using "1.prems" by (simp add: bit_length.simps [of n])
    from pos obtain k where k: "bit_length (n div 2) = Suc k" by (cases "bit_length (n div 2)") auto
    from ih k have "2 * 2 ^ k \<le> 2 * (n div 2)" by simp
    also have "\<dots> \<le> n" by simp
    finally have lo: "2 ^ (bit_length n - 1) \<le> n" using b k by simp
    from ih have "n div 2 + 1 \<le> 2 ^ bit_length (n div 2)" by simp
    then have "2 * (n div 2) + 2 \<le> 2 * 2 ^ bit_length (n div 2)" by simp
    moreover have "n < 2 * (n div 2) + 2" by arith
    ultimately have hi: "n < 2 ^ bit_length n" using b by simp
    from lo hi show ?thesis by simp
  qed
qed

lemma round_half_even_int: "round_half_even (of_int m) = m"
  by (simp add: round_half_even_def)

lemma round_double_nat:
  assumes "n < 2 ^ 53"
  shows "round_double (of_nat n) = Fin (of_nat n)"
proof (cases "n = 0")
  case True
  then show ?thesis by (simp add: round_double_def)
next
  case False
  then have pos: "0 < n" by simp
  let ?b = "bit_length n"
  from bit_length_bounds [OF pos] have lo: "2 ^ (?b - 1) \<le> n" and hi: "n < 2 ^ ?b" by auto
  from pos have b1: "1 \<le> ?b" by (simp add: bit_length.simps [of n])
  have b53: "?b \<le> 53"
  proof (rule ccontr)
    assume "\<not> ?b \<le> 53"
    then have "53 \<le> ?b - 1" by simp
    then have "(2::nat) ^ 53 \<le> 2 ^ (?b - 1)" by (rule power_increasing) simp
    with lo assms show False by simp
  qed
  have a1: "(1::rat) \<le> of_nat n" using pos by simp
  have il: "ilog2 (of_nat n) = int ?b - 1"
    using a1 by (simp add: ilog2_def)
  have e: "max (ilog2 (of_nat n)) (- 1022) = int ?b - 1"
    using il b1 by simp
  have q: "pow2 (int ?b - 1 - 52) = 1 / 2 ^ (53 - ?b)"
  proof (cases "?b = 53")
    case True
    then show ?thesis by (simp add: pow2_def)
  next
    case False
    with b53 have "?b < 53" by simp
    then have "nat (52 - (int ?b - 1)) = 53 - ?b" by simp
    with \<open>?b < 53\<close> show ?thesis by (simp add: pow2_def)
  qed
  have d: "rat_of_nat n / (1 / 2 ^ (53 - ?b)) = of_int (int n * 2 ^ (53 - ?b))"
    by simp
  have big: "\<not> (2 ^ 1024 - 2 ^ 970 \<le> rat_of_nat n)"
  proof -
    have "rat_of_nat n < of_nat (2 ^ 53)" using assms by (simp only: of_nat_less_iff)
    also have "\<dots> < 2 ^ 1024 - 2 ^ 970" by simp
    finally show ?thesis by simp
  qed
  have "round_half_even (rat_of_nat n / (1 / 2 ^ (53 - ?b))) = int n * 2 ^ (53 - ?b)"
    unfolding d by (rule round_half_even_int)
  then show ?thesis
    using pos big e q by (simp add: round_double_def Let_def)
qed

lemma round_double_int:
  assumes "0 \<le> m" "m < 2 ^ 53"
  shows "round_double (of_int m) = Fin (of_int m)"
proof -
  from assms have "nat m < 2 ^ 53" by (simp add: nat_less_iff)
  then have "round_double (of_nat (nat m)) = Fin (of_nat (nat m))" by (rule round_double_nat)
  with assms(1) show ?thesis by simp
qed

lemma whole_entry_value:
  assumes "whole_entry c" "whole_value c < 2 ^ 53"
  shows "entry_value c = Fin (of_int (whole_value c))" and "0 \<le> whole_value c"
proof -
  from assms(1) obtain x where x: "price c = PNum x" "0 \<le> x" "x < 2 ^ 53" "x = of_int \<lfloor>x\<rfloor>"
    and q: "0 \<le> quantity c" "quantity c < 2 ^ 53"
    by (auto simp: whole_entry_def split: price_val.splits)
  let ?p = "\<lfloor>x\<rfloor>"
  from x have p: "0 \<le> ?p" "?p < 2 ^ 53" by (simp_all add: floor_less_iff)
  have v: "whole_value c = ?p * quantity c" using x by (simp add: whole_value_def)
  from p q show "0 \<le> whole_value c" unfolding v by simp
  then have r: "round_double (of_int (?p * quantity c)) = Fin (of_int (?p * quantity c))"
    using assms(2) unfolding v by (intro round_double_int) simp_all
  have "price_number (price c) = round_double (of_int ?p)"
    using x by (simp add: price_number_def)
  also have "\<dots> = Fin (of_int ?p)" using p by (rule round_double_int)
  finally have pn: "price_number (price c) = Fin (of_int ?p)" .
  have qn: "round_double (of_int (quantity c)) = Fin (of_int (quantity c))"
    using q by (rule round_double_int)
  show "entry_value c = Fin (of_int (whole_value c))"
    using r by (simp add: entry_value_def pn qn v)
qed

lemma whole_foldl:
  "0 \<le> acc \<Longrightarrow> \<forall>c\<in>set cs. whole_entry c \<Longrightarrow> acc + (\<Sum>c\<leftarrow>cs. whole_value c) < 2 ^ 53 \<Longrightarrow>
   foldl jadd (Fin (of_int acc)) (map entry_value cs) = Fin (of_int (acc + (\<Sum>c\<leftarrow>cs. whole_value c)))
   \<and> 0 \<le> (\<Sum>c\<leftarrow>cs. whole_value c)"
proof (induction cs arbitrary: acc rule: rev_induct)
  case Nil
  then show ?case by simp
next
  case (snoc c cs)
  let ?s = "\<Sum>c\<leftarrow>cs. whole_value c"
  from snoc.prems have w: "whole_entry c" and ws: "\<forall>c\<in>set cs. whole_entry c" by auto
  have nn: "\<And>d. d \<in> set cs \<Longrightarrow> 0 \<le> (case price d of PNum x \<Rightarrow> \<lfloor>x\<rfloor> | PStr s \<Rightarrow> 0) * quantity d"
    using ws by (auto simp: whole_entry_def split: price_val.splits)
  then have s0: "0 \<le> ?s" by (auto intro!: sum_list_nonneg simp: whole_value_def)
  from w have c0: "0 \<le> whole_value c"
    by (auto simp: whole_entry_def whole_value_def split: price_val.splits)
  from snoc.prems s0 c0 have b1: "acc + ?s < 2 ^ 53" and b2: "whole_value c < 2 ^ 53"
    and b3: "acc + ?s + whole_value c < 2 ^ 53" by simp_all
  from snoc.IH [OF snoc.prems(1) ws b1]
  have ih: "foldl jadd (Fin (of_int acc)) (map entry_value cs) = Fin (of_int (acc + ?s))" by simp
  have ev: "entry_value c = Fin (of_int (whole_value c))" using w b2 by (rule whole_entry_value)
  have "round_double (of_int (acc + ?s + whole_value c)) = Fin (of_int (acc + ?s + whole_value c))"
    using snoc.prems(1) s0 c0 b3 by (intro round_double_int) simp_all
  then show ?case using ih ev s0 c0 by (simp add: add.assoc)
qed

lemma show_nat_times_10: "0 < n \<Longrightarrow> show_nat (10 * n) = show_nat n @ ''0''"
  by (simp add: show_nat.simps [of "10 * n"] digit_char_def)

lemma show_nat_nonempty: "show_nat n \<noteq> []"
  by (simp add: show_nat.simps [of n])

lemma toFixed_whole:
  assumes "0 \<le> m" "m < 2 ^ 53"
  shows "toFixed nts 2 (Fin (of_int m)) = show_nat (nat m) @ ''.00''"
proof (cases "m = 0")
  case True
  then show ?thesis
    by (simp add: toFixed_def Let_def show_nat.simps [of 0] digit_char_def)
next
  case False
  with assms have pos: "0 < nat m" by simp
  have small: "\<not> (10 ^ 21 \<le> \<bar>rat_of_int m\<bar>)"
  proof -
    have "rat_of_int m < of_int (2 ^ 53)" using assms by (simp only: of_int_less_iff)
    also have "\<dots> < 10 ^ 21" by simp
    finally show ?thesis using assms by simp
  qed
  have fl: "nat \<lfloor>\<bar>rat_of_int m\<bar> * 10 ^ 2 + 1 / 2\<rfloor> = 100 * nat m"
  proof -
    have "\<bar>rat_of_int m\<bar> * 10 ^ 2 + 1 / 2 = of_int (m * 100) + 1 / 2" using assms by simp
    moreover have "\<lfloor>(of_int (m * 100) :: rat) + 1 / 2\<rfloor> = m * 100"
      by (rule floor_unique) simp_all
    ultimately show ?thesis using assms by (simp add: nat_mult_distrib)
  qed
  have s1: "show_nat (10 * nat m) = show_nat (nat m) @ ''0''"
    using pos by (rule show_nat_times_10)
  have s2: "show_nat (10 * (10 * nat m)) = show_nat (10 * nat m) @ ''0''"
    using pos by (intro show_nat_times_10) simp
  have e: "100 * nat m = 10 * (10 * nat m)" by simp
  have sn: "show_nat (100 * nat m) = show_nat (nat m) @ ''00''"
    unfolding e s2 s1 by simp
  have ne: "show_nat (nat m) \<noteq> []" by (rule show_nat_nonempty)
  then have len: "0 < length (show_nat (nat m))" by simp
  show ?thesis
    using small assms len fl by (simp add: toFixed_def Let_def sn)
qed

lemma whole_total:
  assumes "\<forall>c\<in>set cs. whole_entry c" "(\<Sum>c\<leftarrow>cs. whole_value c) < 2 ^ 53"
  shows "getTotalValue nts cs = ''$'' @ show_nat (nat (\<Sum>c\<leftarrow>cs. whole_value c)) @ ''.00''"
proof -
  from whole_foldl [of 0 cs] assms
  have "dsum (map entry_value cs) = Fin (of_int (\<Sum>c\<leftarrow>cs. whole_value c))"
    and "0 \<le> (\<Sum>c\<leftarrow>cs. whole_value c)"
    by (simp_all add: dsum_def)
  then show ?thesis using assms(2)
    by (simp add: getTotalValue_dsum toFixed_whole)
qed

lemma empty_total: "getTotalValue nts [] = ''$0.00''"
  by (simp add: getTotalValue_dsum dsum_def toFixed_values)

text \<open>
  C7 (amended). \<open>getTotalValue\<close> returns a text: a dollar sign followed by the total
  with two decimals (\<open>toFixed(2)\<close>). The total is the sum, from left to right and in
  double arithmetic, of price times quantity over the entries, where a numeric price
  is used as it is, a text price is parsed by \<open>parseFloat\<close> after its first dollar sign
  is removed, and a text with no number counts as 0. Price "$25.50" with quantity 2
  and price 12 with quantity 1 give "$63.00"; an unparsable price with quantity 3 and
  price 12 with quantity 1 give "$12.00"; price 0.001 gives "$0.00"; price "$1.005",
  and prices 1 and 0.005, give "$1.00", the double nearest to 1.005 being below it;
  price 0.125 gives "$0.13"; a price text that starts with a no-break space is parsed;
  price "1e400" gives "$Infinity". When every price is a whole number and every price,
  every quantity and the sum are from 0 up to \<open>2^53\<close>, no rounding occurs and the result
  is the digits of the sum followed by ".00".
\<close>

theorem getTotalValue_formatted_sum:
  "getTotalValue nts cs = ''$'' @ toFixed nts 2 (dsum (map entry_value cs))
   \<and> getTotalValue nts [] = ''$0.00''
   \<and> ((\<forall>c\<in>set cs. whole_entry c) \<and> (\<Sum>c\<leftarrow>cs. whole_value c) < 2 ^ 53 \<longrightarrow>
         getTotalValue nts cs = ''$'' @ show_nat (nat (\<Sum>c\<leftarrow>cs. whole_value c)) @ ''.00'')
   \<and> price_number (PNum x) = round_double x
   \<and> (parseFloat (remove1 CHR ''$'' s) = NaN \<longrightarrow> price_number (PStr s) = Fin 0)
   \<and> (parseFloat (remove1 CHR ''$'' s) \<noteq> NaN \<longrightarrow>
         price_number (PStr s) = parseFloat (remove1 CHR ''$'' s))
   \<and> getTotalValue nts legacy_collection = ''$63.00''
   \<and> getTotalValue nts unparsable_collection = ''$12.00''
   \<and> getTotalValue nts sub_cent_collection = ''$0.00''
   \<and> getTotalValue nts half_cent_text_collection = ''$1.00''
   \<and> getTotalValue nts half_cent_sum_collection = ''$1.00''
   \<and> getTotalValue nts eighth_collection = ''$0.13''
   \<and> getTotalValue nts nbsp_collection = ''$15.00''
   \<and> getTotalValue nts overflow_collection = ''$Infinity''"
proof (intro conjI impI)
  show "getTotalValue nts cs = ''$'' @ toFixed nts 2 (dsum (map entry_value cs))"
    by (rule getTotalValue_dsum)
  show "getTotalValue nts [] = ''$0.00''"
    by (rule empty_total)
  show "price_number (PNum x) = round_double x"
    by (rule price_number_PNum)
  show "getTotalValue nts legacy_collection = ''$63.00''" by (rule legacy_total)
  show "getTotalValue nts unparsable_collection = ''$12.00''" by (rule unparsable_total)
  show "getTotalValue nts sub_cent_collection = ''$0.00''" by (rule sub_cent_total)
  show "getTotalValue nts half_cent_text_collection = ''$1.00''" by (rule half_cent_text_total)
  show "getTotalValue nts half_cent_sum_collection = ''$1.00''" by (rule half_cent_sum_total)
  show "getTotalValue nts eighth_collection = ''$0.13''" by (rule eighth_total)
  show "getTotalValue nts nbsp_collection = ''$15.00''" by (rule nbsp_total)
  show "getTotalValue nts overflow_collection = ''$Infinity''" by (rule overflow_total)
next
  assume "(\<forall>c\<in>set cs. whole_entry c) \<and> (\<Sum>c\<leftarrow>cs. whole_value c) < 2 ^ 53"
  then show "getTotalValue nts cs = ''$'' @ show_nat (nat (\<Sum>c\<leftarrow>cs. whole_value c)) @ ''.00''"
    by (intro whole_total) auto
next
  assume "parseFloat (remove1 CHR ''$'' s) = NaN"
  then show "price_number (PStr s) = Fin 0"
    by (simp add: price_number_def)
next
  assume "parseFloat (remove1 CHR ''$'' s) \<noteq> NaN"
  then show "price_number (PStr s) = parseFloat (remove1 CHR ''$'' s)"
    by (simp add: price_number_def split: jsnum.splits)
qed

theorem getTotalValue_formatted_sum_witness:
  "parseFloat (remove1 CHR ''$'' ''n/a'') = NaN
   \<and> price_number (PStr ''n/a'') = Fin 0
   \<and> parseFloat (remove1 CHR ''$'' ''$25.50'') = Fin (51/2)
   \<and> price_number (PStr ''$25.50'') = Fin (51/2)
   \<and> getTotalValue sample_numToString legacy_collection = ''$63.00''
   \<and> getTotalValue sample_numToString unparsable_collection = ''$12.00''
   \<and> getTotalValue sample_numToString half_cent_text_collection = ''$1.00''
   \<and> (\<Sum>c\<leftarrow>whole_collection. whole_value c) = 33
   \<and> getTotalValue sample_numToString whole_collection = ''$33.00''"
proof -
  have w1: "\<forall>c\<in>set whole_collection. whole_entry c"
    by (simp add: whole_collection_def whole_entry_def priced_card_def spread_card_def sample_card_def
        Card.extend_def)
  have w2: "(\<Sum>c\<leftarrow>whole_collection. whole_value c) = 33"
    by (simp add: whole_collection_def whole_value_def priced_card_def spread_card_def sample_card_def
        Card.extend_def)
  then have w3: "(\<Sum>c\<leftarrow>whole_collection. whole_value c) < 2 ^ 53" by simp
  from getTotalValue_formatted_sum [where nts = sample_numToString and cs = whole_collection] w1 w3
  have "getTotalValue sample_numToString whole_collection
          = ''$'' @ show_nat (nat (\<Sum>c\<leftarrow>whole_collection. whole_value c)) @ ''.00''"
    by blast
  then have r6: "getTotalValue sample_numToString whole_collection = ''$33.00''"
    by (simp add: w2 show_nat.simps [of 33] show_nat.simps [of 3] digit_char_def)
  have p1: "parseFloat (remove1 CHR ''$'' ''n/a'') = NaN"
    by (simp add: parseFloat_n_a)
  have p2: "parseFloat (remove1 CHR ''$'' ''$25.50'') = Fin (51/2)"
    by (simp add: parseFloat_25_50)
  then have p3: "parseFloat (remove1 CHR ''$'' ''$25.50'') \<noteq> NaN" by simp
  from getTotalValue_formatted_sum [where s = "''n/a''"] p1
  have r1: "price_number (PStr ''n/a'') = Fin 0" by blast
  from getTotalValue_formatted_sum [where s = "''$25.50''"] p3
  have "price_number (PStr ''$25.50'') = parseFloat (remove1 CHR ''$'' ''$25.50'')" by blast
  with p2 have r2: "price_number (PStr ''$25.50'') = Fin (51/2)" by simp
  from getTotalValue_formatted_sum [where nts = sample_numToString]
  have r3: "getTotalValue sample_numToString legacy_collection = ''$63.00''"
    and r4: "getTotalValue sample_numToString unparsable_collection = ''$12.00''"
    and r5: "getTotalValue sample_numToString half_cent_text_collection = ''$1.00''"
    by blast+
  from p1 p2 r1 r2 r3 r4 r5 w2 r6 show ?thesis by blast
qed

text \<open>
  The result is not the sum itself: on one entry of price 0.001 and quantity 1 the sum
  is the double nearest to 0.001 and the result is the text "$0.00", which reads back
  as 0.
\<close>

theorem getTotalValue_formatted_sum_counterexample:
  "dsum (map entry_value sub_cent_collection) = Fin (1152921504606847/1152921504606846976)
   \<and> getTotalValue sample_numToString sub_cent_collection = ''$0.00''
   \<and> parseFloat (remove1 CHR ''$'' (getTotalValue sample_numToString sub_cent_collection)) = Fin 0
   \<and> parseFloat (remove1 CHR ''$'' (getTotalValue sample_numToString sub_cent_collection))
       \<noteq> dsum (map entry_value sub_cent_collection)"
  by (simp add: sub_cent_sum sub_cent_total parseFloat_0_00)

end
